theory Spec2Isabelle
  imports Complex_Main "HOL-Library.Sublist" "HOL-Library.Log_Nat"
begin

section \<open>Python values used by the generator\<close>

text \<open>
  A Python \<open>str\<close> is modelled by the \<open>string\<close> of its UTF-8 bytes, the encoding of the
  source file, of the request and of the response: a character below U+0080 is one
  \<open>char\<close>, any other is a leading byte followed by one to three continuation bytes
  (\<open>0x80\<close> to \<open>0xBF\<close>). A \<open>str\<close> that holds a lone surrogate has no such encoding and
  is outside the model. The three characters that cannot be written inside a string literal
  get a name.
\<close>

abbreviation NL :: string where "NL \<equiv> [CHR 0x0A]"
abbreviation DQ :: string where "DQ \<equiv> [CHR 0x22]"
abbreviation SQ :: string where "SQ \<equiv> [CHR 0x27]"

text \<open>
  \<open>chars s\<close> lists the characters of \<open>s\<close>, each as its bytes: a byte and the
  continuation bytes that follow it. What Python does character by character is defined on
  that list; \<open>take_chars n s\<close> is \<open>s[:n]\<close>.
\<close>

definition continuation :: "char \<Rightarrow> bool" where
  "continuation b = (128 \<le> (of_char b :: nat) \<and> (of_char b :: nat) < 192)"

function chars :: "string \<Rightarrow> string list" where
  "chars [] = []"
| "chars (b # bs) = (b # takeWhile continuation bs) # chars (dropWhile continuation bs)"
  by pat_completeness auto

termination chars
  by (relation "measure length") (simp_all add: length_dropWhile_le less_Suc_eq_le)

definition take_chars :: "nat \<Rightarrow> string \<Rightarrow> string" where
  "take_chars n s = concat (take n (chars s))"

text \<open>
  The lists that \<open>chars\<close> returns, and their segments: no character is empty, the bytes
  after the first of a character are continuation bytes, and every character after the
  first of the list starts with a byte that is not one.
\<close>

definition well_formed :: "string list \<Rightarrow> bool" where
  "well_formed xs =
    ((\<forall>x\<in>set xs. x \<noteq> [] \<and> (\<forall>c\<in>set (tl x). continuation c)) \<and>
     (\<forall>x\<in>set (tl xs). \<not> continuation (hd x)))"

text \<open>\<open>str(n)\<close> for a Python \<open>int\<close>: decimal digits, with a minus sign below zero.\<close>

fun str_nat :: "nat \<Rightarrow> string" where
  "str_nat n = (if n < 10 then [''0123456789'' ! n]
                else str_nat (n div 10) @ [''0123456789'' ! (n mod 10)])"

declare str_nat.simps [simp del]

definition str_int :: "int \<Rightarrow> string" where
  "str_int i = (if i < 0 then ''-'' @ str_nat (nat (- i)) else str_nat (nat i))"

text \<open>
  A \<open>dict\<close> with string keys and string values; \<open>dict_get d k dflt\<close> is
  \<open>d.get(k, dflt)\<close>.
\<close>

type_synonym dict = "string \<rightharpoonup> string"

definition dict_get :: "dict \<Rightarrow> string \<Rightarrow> string \<Rightarrow> string" where
  "dict_get d k dflt = (case d k of None \<Rightarrow> dflt | Some v \<Rightarrow> v)"

section \<open>The prompt composer: first half of \<open>generate_cv_sections\<close>\<close>

text \<open>Lines 104 to 108: the target market.\<close>

definition target_market :: "string \<Rightarrow> string" where
  "target_market aspiration =
     (if aspiration \<in> set [''Interested in studying abroad'', ''Work as a freelancer'']
      then ''International'' else ''Pakistan'')"

text \<open>Lines 114 to 125: the list of style directives, in the order of the source.\<close>

definition variation_styles :: "string list" where
  "variation_styles =
    [''Lead with achievements and quantifiable results. Start with your strongest accomplishment.'',
     ''Open with your passion and what drives you. Emphasize commitment and enthusiasm.'',
     ''Begin by highlighting your unique competitive advantages and specialized skills.'',
     ''Start with your adaptability and how you embrace new challenges and learning.'',
     ''Open with a problem you solved or impact you created. Focus on outcomes.'',
     ''Lead with your professional identity and what makes you stand out in your field.'',
     ''Begin with your career goals and how your background prepares you for them.'',
     ''Start by describing your professional journey and key milestones.'',
     ''Open with your technical expertise and how you apply it effectively.'',
     ''Lead with your collaborative strengths and team contributions.'']"

text \<open>
  Line 128. Python's \<open>%\<close> with a positive right operand yields a result between
  \<open>0\<close> and the operand, as \<open>mod\<close> on \<open>int\<close> does, so the index is always in range.
\<close>

definition variation_style :: "int \<Rightarrow> string" where
  "variation_style variation_number =
     variation_styles ! nat (variation_number mod int (length variation_styles))"

text \<open>Lines 130 to 144: the guidance for the aspiration, then the style directive.\<close>

definition aspiration_text :: "string \<Rightarrow> string" where
  "aspiration_text aspiration =
    (if aspiration = ''Interested in studying abroad'' then
       ''Emphasize academic achievements, research interests, international aspirations, adaptability, and desire for global education. Highlight qualifications that make them a strong candidate for international universities.''
     else if aspiration = ''Want to serve Family Business'' then
       ''Focus on family business values, loyalty, entrepreneurial mindset, relevant skills for business growth, and commitment to continuing family legacy. Show blend of tradition and innovation.''
     else if aspiration = ''New Start-up (Business)'' then
       ''Highlight entrepreneurial spirit, innovation, problem-solving skills, leadership qualities, risk-taking abilities, and vision for creating new ventures. Show passion for building something new.''
     else if aspiration = ''Work as a freelancer'' then
       ''Emphasize self-motivation, diverse skill set, flexibility, client management abilities, independent work style, and track record of delivering projects. Show versatility and reliability.''
     else if aspiration = ''Interested in Job'' then
       ''Focus on professional qualifications, team collaboration, career growth mindset, organizational skills, and readiness to contribute to company success. Show you'' @
       SQ @ ''re a valuable employee.''
     else if aspiration = ''Want to continue studies in Pakistan'' then
       ''Highlight academic dedication, research interests, commitment to local education system, desire for advanced knowledge, and contributions to Pakistan'' @
       SQ @ ''s academic community.''
     else '''')"

definition aspiration_guidance :: "string \<Rightarrow> int \<Rightarrow> string" where
  "aspiration_guidance aspiration variation_number =
     aspiration_text aspiration @ '' '' @ variation_style variation_number"

text \<open>Lines 146 to 149: the system prompt.\<close>

definition system_prompt :: "dict \<Rightarrow> int \<Rightarrow> string" where
  "system_prompt data variation_number =
    (let tm = target_market (dict_get data ''aspiration'' '''') in
     ''You are an expert CV writer for '' @ tm @ '' job markets. '' @ NL @
     ''Always write exactly 70 words. Write in first person perspective.'' @ NL @
     ''Create a unique and compelling narrative each time, varying sentence structure and emphasis.'' @ NL @
     ''Variation #'' @ str_int (variation_number + 1) @
     '' - Make this version distinctly different from previous versions.'')"

text \<open>Lines 151 to 200: the user prompt.\<close>

definition prompt :: "dict \<Rightarrow> int \<Rightarrow> string" where
  "prompt data variation_number =
    (let asp = dict_get data ''aspiration'' '''';
         tm = target_market asp;
         guid = aspiration_guidance asp variation_number in
     NL @
     ''Generate a professional CV '' @ DQ @ ''About Me'' @ DQ @
     '' section for someone with the following profile:'' @ NL @
     NL @
     ''TARGET MARKET: '' @ tm @ NL @
     ''CAREER ASPIRATION: '' @ asp @ NL @
     guid @ NL @
     NL @
     ''EDUCATION:'' @ NL @
     ''University: '' @ dict_get data ''university'' ''N/A'' @ NL @
     ''Major Subject: '' @ dict_get data ''major_subject'' ''N/A'' @ NL @
     ''Status: '' @ dict_get data ''degree_status'' '''' @ NL @
     ''Pass out: '' @ dict_get data ''passout_session'' ''N/A'' @ NL @
     ''Final Year Project: '' @ dict_get data ''final_year_project'' ''N/A'' @ NL @
     NL @
     ''EXPERIENCE:'' @ NL @
     ''Organization: '' @ dict_get data ''organization'' ''N/A'' @ NL @
     ''Designation: '' @ dict_get data ''designation'' '''' @ NL @
     ''Years: '' @ dict_get data ''experience_years'' '''' @ NL @
     ''Status: '' @ dict_get data ''experience_status'' '''' @ NL @
     ''Industry: '' @ dict_get data ''industry'' '''' @ NL @
     ''Work Detail: '' @ dict_get data ''work_detail'' ''N/A'' @ NL @
     NL @
     ''SKILLS & INTERESTS:'' @ NL @
     ''Technical Skills: '' @ dict_get data ''technical_skills'' '''' @ NL @
     ''IT Skills: '' @ dict_get data ''it_skills'' ''N/A'' @ NL @
     ''Interests: '' @ dict_get data ''interests'' ''N/A'' @ NL @
     ''Certifications: '' @ dict_get data ''certifications'' ''N/A'' @ NL @
     ''Awards: '' @ dict_get data ''medal_holder'' ''N/A'' @ NL @
     NL @
     ''ACHIEVEMENTS:'' @ NL @
     dict_get data ''achievements'' '''' @ NL @
     NL @
     ''HONOURS:'' @ NL @
     dict_get data ''honours'' ''N/A'' @ NL @
     NL @
     ''REFERENCES:'' @ NL @
     ''Name: '' @ dict_get data ''ref_name'' ''N/A'' @ NL @
     ''Designation: '' @ dict_get data ''ref_designation'' ''N/A'' @ NL @
     ''Organization: '' @ dict_get data ''ref_organization'' ''N/A'' @ NL @
     NL @
     ''CRITICAL REQUIREMENTS:'' @ NL @
     ''1. Write exactly 70 words'' @ NL @
     ''2. Write in first person perspective'' @ NL @
     ''3. Tailor the content specifically for '' @ tm @ '' market'' @ NL @
     ''4. Make the aspiration ('' @ asp @ '') clear and central to the narrative'' @ NL @
     ''5. Use appropriate tone for '' @ tm @
     '' market (Pakistan: formal and respectful, International: direct and results-focused)'' @ NL @
     ''6. Create a UNIQUE version - vary the opening, structure, and emphasis from typical CV summaries'' @ NL @
     NL @
     ''VARIATION INSTRUCTION: This is variation #'' @ str_int (variation_number + 1) @
     ''. Make it distinctly different by using alternative phrasing and different angle of emphasis.'' @
     NL)"

section \<open>Exceptions, JSON values and HTTP\<close>

text \<open>
  The exception classes the handlers tell apart. In the \<open>requests\<close> library
  \<open>ConnectTimeout\<close> inherits from both \<open>Timeout\<close> and \<open>ConnectionError\<close>,
  \<open>ReadTimeout\<close> from \<open>Timeout\<close>, \<open>ProxyError\<close> and \<open>SSLError\<close> from
  \<open>ConnectionError\<close>. Every class here inherits from \<open>Exception\<close>.
\<close>

datatype exn_class =
    Timeout | ConnectTimeout | ReadTimeout
  | ConnectionError | ProxyError | SSLError
  | JSONDecodeError | AttributeError | IndexError | KeyError | TypeError
  | OtherException

text \<open>An exception: its class and \<open>str(e)\<close>.\<close>

datatype py_exception = Exn exn_class string

fun exn_str :: "py_exception \<Rightarrow> string" where
  "exn_str (Exn c m) = m"

fun is_Timeout :: "py_exception \<Rightarrow> bool" where
  "is_Timeout (Exn c m) = (c = Timeout \<or> c = ConnectTimeout \<or> c = ReadTimeout)"

fun is_ConnectionError :: "py_exception \<Rightarrow> bool" where
  "is_ConnectionError (Exn c m) =
     (c = ConnectionError \<or> c = ConnectTimeout \<or> c = ProxyError \<or> c = SSLError)"

text \<open>
  What \<open>response.json()\<close> can return: a parsed JSON document. An object is the list
  of its entries, with distinct keys, as the \<open>dict\<close> it is parsed to has.
\<close>

datatype json =
    JNull | JBool bool | JInt int | JFloat rat | JStr string
  | JArr "json list" | JObj "(string \<times> json) list"

fun type_name :: "json \<Rightarrow> string" where
  "type_name JNull = ''NoneType''"
| "type_name (JBool b) = ''bool''"
| "type_name (JInt i) = ''int''"
| "type_name (JFloat x) = ''float''"
| "type_name (JStr s) = ''str''"
| "type_name (JArr xs) = ''list''"
| "type_name (JObj kvs) = ''dict''"

definition no_attribute :: "json \<Rightarrow> string \<Rightarrow> py_exception" where
  "no_attribute v a =
     Exn AttributeError (SQ @ type_name v @ SQ @ '' object has no attribute '' @ SQ @ a @ SQ)"

text \<open>\<open>v.get(k, dflt)\<close>: only a \<open>dict\<close> has the method.\<close>

fun py_get :: "json \<Rightarrow> string \<Rightarrow> json \<Rightarrow> py_exception + json" where
  "py_get (JObj kvs) k dflt = Inr (case map_of kvs k of None \<Rightarrow> dflt | Some v \<Rightarrow> v)"
| "py_get v k dflt = Inl (no_attribute v ''get'')"

text \<open>
  \<open>v[0]\<close>: the first element of a list or the first character of a string, an
  \<open>IndexError\<close> when there is none; a \<open>dict\<close> parsed from JSON has string keys only,
  so the key \<open>0\<close> is missing; nothing else can be subscripted.
\<close>

fun py_index0 :: "json \<Rightarrow> py_exception + json" where
  "py_index0 (JArr []) = Inl (Exn IndexError ''list index out of range'')"
| "py_index0 (JArr (x # xs)) = Inr x"
| "py_index0 (JStr s) =
     (case chars s of [] \<Rightarrow> Inl (Exn IndexError ''string index out of range'')
      | c # cs \<Rightarrow> Inr (JStr c))"
| "py_index0 (JObj kvs) = Inl (Exn KeyError ''0'')"
| "py_index0 v = Inl (Exn TypeError (SQ @ type_name v @ SQ @ '' object is not subscriptable''))"

text \<open>
  The characters for which \<open>str.isspace\<close> holds, which are the ones \<open>str.strip()\<close>
  removes: the 29 code points U+0009 to U+000D, U+001C to U+0020, U+0085, U+00A0, U+1680,
  U+2000 to U+200A, U+2028, U+2029, U+202F, U+205F and U+3000, each as its bytes.
\<close>

definition whitespace :: "string list" where
  "whitespace =
    [[CHR 0x09], [CHR 0x0A], [CHR 0x0B], [CHR 0x0C], [CHR 0x0D],
     [CHR 0x1C], [CHR 0x1D], [CHR 0x1E], [CHR 0x1F], [CHR 0x20],
     [CHR 0xC2, CHR 0x85], [CHR 0xC2, CHR 0xA0],
     [CHR 0xE1, CHR 0x9A, CHR 0x80],
     [CHR 0xE2, CHR 0x80, CHR 0x80], [CHR 0xE2, CHR 0x80, CHR 0x81],
     [CHR 0xE2, CHR 0x80, CHR 0x82], [CHR 0xE2, CHR 0x80, CHR 0x83],
     [CHR 0xE2, CHR 0x80, CHR 0x84], [CHR 0xE2, CHR 0x80, CHR 0x85],
     [CHR 0xE2, CHR 0x80, CHR 0x86], [CHR 0xE2, CHR 0x80, CHR 0x87],
     [CHR 0xE2, CHR 0x80, CHR 0x88], [CHR 0xE2, CHR 0x80, CHR 0x89],
     [CHR 0xE2, CHR 0x80, CHR 0x8A],
     [CHR 0xE2, CHR 0x80, CHR 0xA8], [CHR 0xE2, CHR 0x80, CHR 0xA9],
     [CHR 0xE2, CHR 0x80, CHR 0xAF],
     [CHR 0xE2, CHR 0x81, CHR 0x9F],
     [CHR 0xE3, CHR 0x80, CHR 0x80]]"

definition isspace :: "string \<Rightarrow> bool" where
  "isspace c = (c \<in> set whitespace)"

text \<open>\<open>s.strip()\<close>: the characters of \<open>s\<close> without the whitespace at either end.\<close>

definition strip :: "string \<Rightarrow> string" where
  "strip s = concat (rev (dropWhile isspace (rev (dropWhile isspace (chars s)))))"

fun py_strip :: "json \<Rightarrow> py_exception + string" where
  "py_strip (JStr s) = Inr (strip s)"
| "py_strip v = Inl (no_attribute v ''strip'')"

text \<open>
  Line 85:
  \<^verbatim>\<open>result.get("choices", [{}])[0].get("message", {}).get("content", "").strip()\<close>
\<close>

definition extract_content :: "json \<Rightarrow> py_exception + string" where
  "extract_content result =
    (case py_get result ''choices'' (JArr [JObj []]) of Inl e \<Rightarrow> Inl e | Inr choices \<Rightarrow>
     case py_index0 choices of Inl e \<Rightarrow> Inl e | Inr choice \<Rightarrow>
     case py_get choice ''message'' (JObj []) of Inl e \<Rightarrow> Inl e | Inr message \<Rightarrow>
     case py_get message ''content'' (JStr []) of Inl e \<Rightarrow> Inl e | Inr content \<Rightarrow>
     py_strip content)"

text \<open>
  A floating point number is modelled by its exact value. The literals of the source are
  the binary64 numbers nearest to them.
\<close>

definition double_0_85 :: rat where "double_0_85 = 7656119366529843 / 2 ^ 53"
definition double_0_15 :: rat where "double_0_15 = 5404319552844595 / 2 ^ 55"
definition double_0_95 :: rat where "double_0_95 = 8556839292003942 / 2 ^ 53"

record payload =
  model :: string
  messages :: "(string \<times> string) list"
  max_tokens :: nat
  temperature :: "rat option"
  top_p :: "rat option"

record request =
  url :: string
  headers :: "(string \<times> string) list"
  body :: payload
  timeout :: nat

record response =
  status_code :: int
  response_text :: string
  response_json :: "py_exception + json"

text \<open>
  What a call has around it: the module constant \<open>GROQ_API_KEY\<close>, what
  \<open>requests.post\<close> does with a request (it raises or returns a response), the draw of
  \<open>random.random()\<close>, which is \<open>random_k / 2 ^ 53\<close> with \<open>random_k < 2 ^ 53\<close>, and
  the formatted clock.
\<close>

record env =
  GROQ_API_KEY :: string
  post :: "request \<Rightarrow> py_exception + response"
  random_k :: nat
  now :: string

text \<open>
  What a call leaves behind: the calls of \<open>requests.post\<close> made, in order, each with
  its request, and the messages that \<open>st.error\<close> and \<open>st.warning\<close> put on the page.
\<close>

record world =
  sent :: "request list"
  st_error :: "string list"
  st_warning :: "string list"

definition GROQ_API_URL :: string where
  "GROQ_API_URL = ''https://api.groq.com/openai/v1/chat/completions''"

definition GROQ_MODEL :: string where
  "GROQ_MODEL = ''llama-3.3-70b-versatile''"

definition MAX_TOKENS :: nat where
  "MAX_TOKENS = 300"

definition auth_headers :: "string \<Rightarrow> (string \<times> string) list" where
  "auth_headers key =
     [(''Authorization'', ''Bearer '' @ key), (''Content-Type'', ''application/json'')]"

text \<open>The three pictographs of the messages, as their UTF-8 bytes.\<close>

definition cross_mark :: string where
  "cross_mark = [CHR 0xE2, CHR 0x9D, CHR 0x8C]"

definition stopwatch :: string where
  "stopwatch = [CHR 0xE2, CHR 0x8F, CHR 0xB1, CHR 0xEF, CHR 0xB8, CHR 0x8F]"

definition electric_plug :: string where
  "electric_plug = [CHR 0xF0, CHR 0x9F, CHR 0x94, CHR 0x8C]"

section \<open>\<open>check_groq_connection\<close>\<close>

text \<open>\<open>response.text[:100]\<close>, the first 100 characters, is \<open>take_chars 100\<close>.\<close>

definition probe_request :: "string \<Rightarrow> request" where
  "probe_request key =
     \<lparr>url = GROQ_API_URL, headers = auth_headers key,
      body = \<lparr>model = GROQ_MODEL, messages = [(''user'', ''Hello'')], max_tokens = 5,
              temperature = None, top_p = None\<rparr>,
      timeout = 10\<rparr>"

definition check_groq_connection :: "env \<Rightarrow> world \<Rightarrow> (bool \<times> string) \<times> world" where
  "check_groq_connection e w =
    (if GROQ_API_KEY e = [] then
       ((False, ''API key not configured. Please set GROQ_API_KEY in your environment variables.''), w)
     else
       let rq = probe_request (GROQ_API_KEY e);
           w1 = w\<lparr>sent := sent w @ [rq]\<rparr> in
       case post e rq of
         Inr r \<Rightarrow>
           if status_code r = 200 then ((True, ''Connected''), w1)
           else ((False, ''Status: '' @ str_int (status_code r) @ '' - '' @ take_chars 100 (response_text r)), w1)
       | Inl x \<Rightarrow>
           if is_Timeout x then ((False, ''Connection timeout''), w1)
           else if is_ConnectionError x then ((False, ''Connection error''), w1)
           else ((False, ''Error: '' @ exn_str x), w1))"

section \<open>\<open>generate_with_groq\<close>\<close>

definition generation_request :: "string \<Rightarrow> string \<Rightarrow> string \<Rightarrow> rat \<Rightarrow> request" where
  "generation_request key prompt_text system_text temp =
     \<lparr>url = GROQ_API_URL, headers = auth_headers key,
      body = \<lparr>model = GROQ_MODEL,
              messages = [(''system'', system_text), (''user'', prompt_text)],
              max_tokens = MAX_TOKENS, temperature = Some temp, top_p = Some double_0_95\<rparr>,
      timeout = 30\<rparr>"

definition show_error :: "string \<Rightarrow> world \<Rightarrow> world" where
  "show_error m w = w\<lparr>st_error := st_error w @ [m]\<rparr>"

text \<open>Lines 90 to 98: the three \<open>except\<close> clauses, in their order.\<close>

definition handle_exception :: "py_exception \<Rightarrow> world \<Rightarrow> string option \<times> world" where
  "handle_exception x w =
    (if is_Timeout x then (None, show_error (stopwatch @ '' Generation timed out'') w)
     else if is_ConnectionError x then
       (None, show_error (electric_plug @ '' Cannot connect to Groq API'') w)
     else (None, show_error (cross_mark @ '' Error generating content: '' @ exn_str x) w))"

definition generate_with_groq ::
  "env \<Rightarrow> string \<Rightarrow> string \<Rightarrow> rat \<Rightarrow> world \<Rightarrow> string option \<times> world" where
  "generate_with_groq e prompt_text system_text temp w =
    (if GROQ_API_KEY e = [] then
       (None, show_error (cross_mark @ '' GROQ_API_KEY not configured'') w)
     else
       let rq = generation_request (GROQ_API_KEY e) prompt_text system_text temp;
           w1 = w\<lparr>sent := sent w @ [rq]\<rparr> in
       case post e rq of
         Inl x \<Rightarrow> handle_exception x w1
       | Inr r \<Rightarrow>
           if status_code r = 200 then
             (case response_json r of
                Inl x \<Rightarrow> handle_exception x w1
              | Inr result \<Rightarrow>
                  (case extract_content result of
                     Inl x \<Rightarrow> handle_exception x w1
                   | Inr content \<Rightarrow> (Some content, w1)))
           else
             (None,
              show_error (''Response: '' @ response_text r)
                (show_error (''Groq API returned status code: '' @ str_int (status_code r)) w1)))"

section \<open>The sampling temperature (line 203)\<close>

text \<open>
  \<^verbatim>\<open>temperature = 0.85 + (random.random() * 0.15)\<close> is computed in binary64
  arithmetic: the exact product is rounded, then the exact sum is rounded, each to the
  nearest number with a significand of 53 bits, a tie going to the even significand.
  With the draw \<open>k / 2 ^ 53\<close> every number involved is a multiple of \<open>2 ^ -108\<close>
  in the normal range, so the computation is done on numerators over \<open>2 ^ 108\<close>:
  \<open>round53 p\<close> rounds the numerator \<open>p\<close> to 53 significant bits.
\<close>

definition round53 :: "nat \<Rightarrow> nat" where
  "round53 p =
    (let l = floorlog 2 p in
     if l \<le> 53 then p
     else
       let s = l - 53;
           q = p div 2 ^ s;
           r = p mod 2 ^ s;
           half = 2 ^ (s - 1)
       in (if r > half \<or> (r = half \<and> odd q) then q + 1 else q) * 2 ^ s)"

definition temperature_num :: "nat \<Rightarrow> nat" where
  "temperature_num k =
     round53 (7656119366529843 * 2 ^ 55 + round53 (k * 5404319552844595))"

definition sample_temperature :: "nat \<Rightarrow> rat" where
  "sample_temperature k = of_nat (temperature_num k) / 2 ^ 108"

section \<open>\<open>generate_cv_sections\<close>\<close>

text \<open>The returned \<open>dict\<close> has string values and one integer.\<close>

datatype py_value = PyStr string | PyInt int

type_synonym cv_section = "string \<rightharpoonup> py_value"

definition generate_cv_sections ::
  "env \<Rightarrow> dict \<Rightarrow> int \<Rightarrow> world \<Rightarrow> cv_section option \<times> world" where
  "generate_cv_sections e data variation_number w =
    (let asp = dict_get data ''aspiration'' '''';
         tm = target_market asp;
         temp = sample_temperature (random_k e);
         (txt, w') = generate_with_groq e (prompt data variation_number)
                       (system_prompt data variation_number) temp w
     in case txt of
          None \<Rightarrow> (None, w')
        | Some t \<Rightarrow>
            if t \<noteq> [] then
              (Some [''text'' \<mapsto> PyStr t,
                     ''timestamp'' \<mapsto> PyStr (now e),
                     ''designation'' \<mapsto> PyStr (dict_get data ''designation'' ''''),
                     ''market'' \<mapsto> PyStr tm,
                     ''aspiration'' \<mapsto> PyStr asp,
                     ''university'' \<mapsto> PyStr (dict_get data ''university'' ''''),
                     ''variation'' \<mapsto> PyInt (variation_number + 1)], w')
            else (None, w'))"

section \<open>The session: form submission and regeneration\<close>

text \<open>The values of the form's widgets when it is submitted.\<close>

record form =
  university :: string
  major_subject :: string
  degree_status :: string
  passout_session :: string
  final_year_project :: string
  organization :: string
  designation :: string
  experience_years :: string
  experience_status :: string
  industry :: string
  work_detail :: string
  technical_skills :: string
  it_skills :: string
  interests :: string
  certifications :: string
  medal_holder :: string
  achievements :: string
  honours :: string
  ref_name :: string
  ref_designation :: string
  ref_organization :: string
  aspiration :: string

text \<open>The options of the aspiration select box (lines 358 to 368).\<close>

definition aspiration_options :: "string list" where
  "aspiration_options =
     [''Interested in Job'', ''Interested in studying abroad'',
      ''Want to serve Family Business'', ''New Start-up (Business)'',
      ''Work as a freelancer'', ''Want to continue studies in Pakistan'']"

text \<open>Lines 377 to 400.\<close>

definition form_data_of :: "form \<Rightarrow> dict" where
  "form_data_of f =
     [''university'' \<mapsto> university f,
      ''major_subject'' \<mapsto> major_subject f,
      ''degree_status'' \<mapsto> degree_status f,
      ''passout_session'' \<mapsto> passout_session f,
      ''final_year_project'' \<mapsto> final_year_project f,
      ''organization'' \<mapsto> organization f,
      ''designation'' \<mapsto> designation f,
      ''experience_years'' \<mapsto> experience_years f,
      ''experience_status'' \<mapsto> experience_status f,
      ''industry'' \<mapsto> industry f,
      ''work_detail'' \<mapsto> work_detail f,
      ''technical_skills'' \<mapsto> technical_skills f,
      ''it_skills'' \<mapsto> it_skills f,
      ''interests'' \<mapsto> interests f,
      ''certifications'' \<mapsto> certifications f,
      ''medal_holder'' \<mapsto> medal_holder f,
      ''achievements'' \<mapsto> achievements f,
      ''honours'' \<mapsto> honours f,
      ''ref_name'' \<mapsto> ref_name f,
      ''ref_designation'' \<mapsto> ref_designation f,
      ''ref_organization'' \<mapsto> ref_organization f,
      ''aspiration'' \<mapsto> aspiration f]"

text \<open>\<open>st.session_state\<close>, as lines 290 to 295 initialise it.\<close>

record session =
  generated_section :: "cv_section option"
  form_data :: dict
  variation_count :: int

definition initial_session :: session where
  "initial_session = \<lparr>generated_section = None, form_data = Map.empty, variation_count = 0\<rparr>"

text \<open>
  Lines 372 to 419, run when the form is submitted. \<open>d.get('aspiration')\<close> is
  \<open>None\<close> for a missing key, which differs from every string; \<open>!=\<close> on two
  \<open>dict\<close>s compares their contents. The returned section is a \<open>dict\<close> of seven
  entries, so it is true where the source tests it. After a success the source calls
  \<open>st.rerun()\<close>, which restarts the script with the session as it is then: the session
  returned here.
\<close>

definition validation_message :: string where
  "validation_message = ''Please fill in all required fields (marked with *)''"

definition submit_form :: "env \<Rightarrow> form \<Rightarrow> session \<Rightarrow> world \<Rightarrow> session \<times> world" where
  "submit_form e f s w =
    (if achievements f = [] then (s, show_error validation_message w)
     else
       let fd = form_data_of f;
           form_changed = (form_data s ''aspiration'' \<noteq> Some (aspiration f) \<or> form_data s \<noteq> fd);
           s1 = s\<lparr>form_data := fd\<rparr>;
           s2 = (if form_changed then s1\<lparr>variation_count := 0\<rparr> else s1);
           (generated, w') = generate_cv_sections e fd (variation_count s2) w
       in case generated of
            Some g \<Rightarrow> (s2\<lparr>generated_section := Some g,
                          variation_count := variation_count s2 + 1\<rparr>, w')
          | None \<Rightarrow> (s2, w'))"

text \<open>Lines 454 to 464, run when the Regenerate button is pressed.\<close>

definition regenerate :: "env \<Rightarrow> session \<Rightarrow> world \<Rightarrow> session \<times> world" where
  "regenerate e s w =
    (if form_data s \<noteq> Map.empty then
       let (new_section, w') = generate_cv_sections e (form_data s) (variation_count s) w
       in case new_section of
            Some g \<Rightarrow> (s\<lparr>generated_section := Some g,
                         variation_count := variation_count s + 1\<rparr>, w')
          | None \<Rightarrow> (s, w')
     else (s, w\<lparr>st_warning := st_warning w @ [''Please fill and submit the form first'']\<rparr>))"

section \<open>Concrete inputs\<close>

text \<open>
  Inputs on which the theorems below are evaluated: an empty page, an environment with a
  key whose \<open>requests.post\<close> has a fixed outcome, a response carrying a completion, and a
  filled form.
\<close>

definition empty_world :: world where
  "empty_world = \<lparr>sent = [], st_error = [], st_warning = []\<rparr>"

definition env_with :: "string \<Rightarrow> (py_exception + response) \<Rightarrow> nat \<Rightarrow> env" where
  "env_with key outcome k =
     \<lparr>GROQ_API_KEY = key, post = (\<lambda>rq. outcome), random_k = k, now = ''2025-01-01 09:30:00''\<rparr>"

definition completion :: "string \<Rightarrow> py_exception + response" where
  "completion content =
     Inr \<lparr>status_code = 200, response_text = [],
          response_json =
            Inr (JObj [(''choices'',
                        JArr [JObj [(''message'', JObj [(''content'', JStr content)])]])])\<rparr>"

definition reply :: "int \<Rightarrow> string \<Rightarrow> py_exception + json \<Rightarrow> py_exception + response" where
  "reply status txt parsed =
     Inr \<lparr>status_code = status, response_text = txt, response_json = parsed\<rparr>"

definition not_json :: "py_exception + json" where
  "not_json = Inl (Exn JSONDecodeError ''Expecting value: line 1 column 1 (char 0)'')"

definition startup_form :: form where
  "startup_form =
     \<lparr>university = [], major_subject = [], degree_status = ''Completed'',
      passout_session = [], final_year_project = [], organization = [], designation = [],
      experience_years = [], experience_status = ''None'', industry = [], work_detail = [],
      technical_skills = [], it_skills = [], interests = [], certifications = [],
      medal_holder = [], achievements = ''Won X award'', honours = [], ref_name = [],
      ref_designation = [], ref_organization = [],
      aspiration = ''New Start-up (Business)''\<rparr>"

text \<open>
  The message of the \<open>except\<close> clause that catches an exception: the clauses are tried
  in the order of the source, so an exception that is both a \<open>Timeout\<close> and a
  \<open>ConnectionError\<close> is reported as a timeout.
\<close>

definition exception_message :: "py_exception \<Rightarrow> string" where
  "exception_message x =
     (if is_Timeout x then stopwatch @ '' Generation timed out''
      else if is_ConnectionError x then electric_plug @ '' Cannot connect to Groq API''
      else cross_mark @ '' Error generating content: '' @ exn_str x)"

definition no_key_env :: env where
  "no_key_env = env_with [] (completion ''I am.'') 0"

definition raising_env :: "exn_class \<Rightarrow> env" where
  "raising_env c = env_with ''gsk'' (Inl (Exn c ''HTTPSConnectionPool: failed'')) 0"

definition entrepreneur_env :: env where
  "entrepreneur_env = env_with ''gsk'' (completion ''I am an aspiring entrepreneur...'') 0"

definition server_error_env :: env where
  "server_error_env = env_with ''gsk'' (reply 500 (replicate 101 (CHR ''x'')) not_json) 0"

definition empty_choices_env :: env where
  "empty_choices_env =
     env_with ''gsk''
       (reply 200 (''{'' @ DQ @ ''choices'' @ DQ @ '': []}'')
          (Inr (JObj [(''choices'', JArr [])]))) 0"

definition submitted_session :: session where
  "submitted_session =
     \<lparr>generated_section = None, form_data = form_data_of startup_form, variation_count = 4\<rparr>"

text \<open>A completion of whitespace only: a space, a line feed, U+2003, U+00A0 and U+3000.\<close>

definition whitespace_env :: env where
  "whitespace_env =
     env_with ''gsk''
       (completion ('' '' @ NL @ [CHR 0xE2, CHR 0x80, CHR 0x83] @ [CHR 0xC2, CHR 0xA0] @
                    [CHR 0xE3, CHR 0x80, CHR 0x80])) 0"

text \<open>
  A completion with whitespace around a word of four characters, the second U+00E9 and the
  last U+00E0: U+00A0, the word, U+2003.
\<close>

definition accent_env :: env where
  "accent_env =
     env_with ''gsk''
       (completion ([CHR 0xC2, CHR 0xA0] @ ''D'' @ [CHR 0xC3, CHR 0xA9] @ ''j'' @
                    [CHR 0xC3, CHR 0xA0] @ [CHR 0xE2, CHR 0x80, CHR 0x83])) 0"

definition blank_form :: form where
  "blank_form = startup_form\<lparr>achievements := []\<rparr>"

definition lums_form :: form where
  "lums_form = startup_form\<lparr>university := ''LUMS''\<rparr>"

definition award_form :: form where
  "award_form = startup_form\<lparr>achievements := ''Won Y award''\<rparr>"

section \<open>Properties of the characters of a string\<close>

lemma concat_chars: "concat (chars s) = s"
  by (induction s rule: chars.induct) simp_all

lemma chars_eq_Nil: "(chars s = []) = (s = [])"
  by (cases s) simp_all

lemma chars_heads: "x \<in> set (chars s) \<Longrightarrow> x \<noteq> [] \<and> (\<forall>c\<in>set (tl x). continuation c)"
  by (induction s rule: chars.induct) (auto dest: set_takeWhileD)

lemma chars_starts:
  "x \<in> set (chars s) \<Longrightarrow> s \<noteq> [] \<Longrightarrow> \<not> continuation (hd s) \<Longrightarrow> \<not> continuation (hd x)"
proof (induction s arbitrary: x rule: chars.induct)
  case 1
  then show ?case by simp
next
  case (2 b bs)
  show ?case
  proof (cases "x = b # takeWhile continuation bs")
    case True
    then show ?thesis using 2(4) by simp
  next
    case False
    then have x: "x \<in> set (chars (dropWhile continuation bs))" using 2(2) by simp
    then have ne: "dropWhile continuation bs \<noteq> []"
      by (auto simp: chars_eq_Nil simp del: dropWhile_eq_Nil_conv)
    then have "\<not> continuation (hd (dropWhile continuation bs))" by (rule hd_dropWhile)
    with 2(1) x ne show ?thesis by blast
  qed
qed

lemma well_formed_chars: "well_formed (chars s)"
proof (cases s)
  case Nil
  then show ?thesis by (simp add: well_formed_def)
next
  case (Cons b bs)
  have "\<not> continuation (hd x)" if x: "x \<in> set (chars (dropWhile continuation bs))" for x
  proof -
    from x have ne: "dropWhile continuation bs \<noteq> []"
      by (auto simp: chars_eq_Nil simp del: dropWhile_eq_Nil_conv)
    then have "\<not> continuation (hd (dropWhile continuation bs))" by (rule hd_dropWhile)
    with x ne show ?thesis by (rule chars_starts)
  qed
  then show ?thesis using chars_heads [of _ s] by (auto simp: well_formed_def Cons)
qed

lemma well_formed_sublist:
  assumes "well_formed xs" and "sublist ys xs"
  shows "well_formed ys"
proof -
  from assms(2) obtain ps ss where xs: "xs = ps @ ys @ ss" by (auto simp: sublist_def)
  have "set (tl ys) \<subseteq> set (tl xs)"
    by (cases ps; cases ys) (auto simp: xs)
  moreover have "set ys \<subseteq> set xs" by (auto simp: xs)
  ultimately show ?thesis using assms(1) unfolding well_formed_def by blast
qed

lemma chars_concat: "well_formed xs \<Longrightarrow> chars (concat xs) = xs"
proof (induction xs)
  case Nil
  then show ?case by simp
next
  case (Cons x xs)
  from Cons.prems obtain b cs where x: "x = b # cs" and cs: "\<forall>c\<in>set cs. continuation c"
    by (cases x) (auto simp: well_formed_def)
  have wf: "well_formed xs"
    using Cons.prems by (rule well_formed_sublist) (simp add: sublist_Cons_right)
  have st: "concat xs = [] \<or> \<not> continuation (hd (concat xs))"
  proof (cases xs)
    case Nil
    then show ?thesis by simp
  next
    case (Cons y ys)
    with Cons.prems have "y \<noteq> []" "\<not> continuation (hd y)" by (auto simp: well_formed_def)
    then show ?thesis using Cons by simp
  qed
  have nil: "takeWhile continuation ys = [] \<and> dropWhile continuation ys = ys"
    if "ys = [] \<or> \<not> continuation (hd ys)" for ys
    using that by (cases ys) auto
  have t0: "takeWhile continuation (concat xs) = []"
    and d0: "dropWhile continuation (concat xs) = concat xs"
    using nil [OF st] by blast+
  have "takeWhile continuation (cs @ concat xs) = cs @ takeWhile continuation (concat xs)"
    using cs by (intro takeWhile_append2) simp
  then have t: "takeWhile continuation (cs @ concat xs) = cs" by (simp only: t0 append_Nil2)
  have "dropWhile continuation (cs @ concat xs) = dropWhile continuation (concat xs)"
    using cs by (intro dropWhile_append2) simp
  then have d: "dropWhile continuation (cs @ concat xs) = concat xs" by (simp only: d0)
  have "chars (concat (x # xs)) = (b # cs) # chars (concat xs)"
    by (simp only: x concat.simps append_Cons chars.simps t d)
  then show ?case by (simp only: Cons.IH [OF wf] x)
qed

lemma sublist_stripped: "sublist (rev (dropWhile P (rev (dropWhile P xs)))) xs"
proof -
  have "sublist (dropWhile P (rev (dropWhile P xs))) (rev (dropWhile P xs))"
    by (rule sublist_dropWhile)
  then have "sublist (rev (dropWhile P (rev (dropWhile P xs)))) (dropWhile P xs)"
    by (simp add: sublist_rev_left)
  moreover have "sublist (dropWhile P xs) xs" by (rule sublist_dropWhile)
  ultimately show ?thesis by (rule sublist_order.order.trans)
qed

lemma chars_strip:
  "chars (strip s) = rev (dropWhile isspace (rev (dropWhile isspace (chars s))))"
  unfolding strip_def
  by (rule chars_concat, rule well_formed_sublist [OF well_formed_chars sublist_stripped])

lemma chars_take_chars: "chars (take_chars n s) = take n (chars s)"
  unfolding take_chars_def
  by (rule chars_concat, rule well_formed_sublist [OF well_formed_chars sublist_take])

lemma chars_ascii: "\<forall>c\<in>set s. \<not> continuation c \<Longrightarrow> chars s = map (\<lambda>c. [c]) s"
proof (induction s)
  case Nil
  then show ?case by simp
next
  case (Cons b bs)
  then have "takeWhile continuation bs = []" "dropWhile continuation bs = bs"
    by (cases bs; simp)+
  with Cons show ?case by simp
qed

lemma take_chars_ascii: "\<forall>c\<in>set s. \<not> continuation c \<Longrightarrow> take_chars n s = take n s"
proof -
  assume "\<forall>c\<in>set s. \<not> continuation c"
  then have "take_chars n s = concat (map (\<lambda>c. [c]) (take n s))"
    by (simp add: take_chars_def chars_ascii take_map)
  also have "\<dots> = take n s" by (induction "take n s" arbitrary: n s) simp_all
  finally show ?thesis .
qed

lemma stripped_ends:
  assumes "rev (dropWhile P (rev (dropWhile P xs))) \<noteq> []"
  shows "\<not> P (hd (rev (dropWhile P (rev (dropWhile P xs)))))"
    and "\<not> P (last (rev (dropWhile P (rev (dropWhile P xs)))))"
proof -
  let ?a = "dropWhile P xs"
  let ?b = "dropWhile P (rev ?a)"
  have b: "?b \<noteq> []" using assms by simp
  then have "\<not> P (hd ?b)" by (rule hd_dropWhile)
  then show "\<not> P (last (rev ?b))" using b by (simp add: last_rev)
  have a: "?a \<noteq> []"
  proof
    assume "?a = []"
    then have "?b = []" by (simp del: dropWhile_eq_Nil_conv)
    with b show False ..
  qed
  then have na: "\<not> P (hd ?a)" by (rule hd_dropWhile)
  have "rev ?a = takeWhile P (rev ?a) @ ?b" by simp
  then have "?a = rev ?b @ rev (takeWhile P (rev ?a))"
    by (metis rev_append rev_rev_ident)
  then have "hd ?a = hd (rev ?b)" using b by (metis hd_append2 rev_is_Nil_conv)
  then show "\<not> P (hd (rev ?b))" using na by simp
qed

lemma strip_not_space:
  assumes "strip s \<noteq> []"
  shows "\<not> isspace (hd (chars (strip s)))" and "\<not> isspace (last (chars (strip s)))"
proof -
  have ne: "rev (dropWhile isspace (rev (dropWhile isspace (chars s)))) \<noteq> []"
    by (metis assms chars_eq_Nil chars_strip)
  show "\<not> isspace (hd (chars (strip s)))"
    unfolding chars_strip by (rule stripped_ends(1) [OF ne])
  show "\<not> isspace (last (chars (strip s)))"
    unfolding chars_strip by (rule stripped_ends(2) [OF ne])
qed

lemma strip_all_space:
  assumes "\<forall>c\<in>set (chars s). isspace c"
  shows "strip s = []"
proof -
  from assms have d: "dropWhile isspace (chars s) = []" by simp
  show ?thesis unfolding strip_def d by simp
qed

lemma strip_plain:
  assumes "s \<noteq> []" and "\<not> isspace (hd (chars s))" and "\<not> isspace (last (chars s))"
  shows "strip s = s"
proof -
  from assms(1) have ne: "chars s \<noteq> []" by (simp add: chars_eq_Nil)
  with assms(2) have 1: "dropWhile isspace (chars s) = chars s" by (cases "chars s") simp_all
  from ne assms(3) have "rev (chars s) \<noteq> []" "\<not> isspace (hd (rev (chars s)))"
    by (simp_all add: hd_rev)
  then have 2: "dropWhile isspace (rev (chars s)) = rev (chars s)"
    by (cases "rev (chars s)") simp_all
  show ?thesis by (simp add: strip_def 1 2 concat_chars)
qed

section \<open>Properties of the prompt composer\<close>

lemma length_variation_styles: "length variation_styles = 10"
  by (simp add: variation_styles_def)

lemma distinct_variation_styles: "distinct variation_styles"
  by (simp add: variation_styles_def)

lemma style_index_differs:
  fixes n m :: int
  assumes "0 < m - n" "m - n < 10"
  shows "nat (n mod 10) \<noteq> nat (m mod 10)"
proof
  assume "nat (n mod 10) = nat (m mod 10)"
  then have "n mod 10 = m mod 10" by simp
  with assms show False by presburger
qed

lemma sublist_skip: "sublist xs ys \<Longrightarrow> sublist xs (ps @ ys)"
  by (auto simp: sublist_def) (metis append.assoc)

lemma sublist_here2: "sublist (xs @ ys) (xs @ ys @ ss)"
  by (metis append.assoc sublist_append_rightI)

lemma sublist_variation_style: "sublist (variation_style n) (prompt data n)"
  unfolding prompt_def aspiration_guidance_def Let_def
  apply (simp only: append_assoc)
  apply (rule sublist_append_rightI | rule sublist_skip)+
  done

lemma sublist_variation_number:
  "sublist (''Variation #'' @ str_int (n + 1)) (system_prompt data n)"
  unfolding system_prompt_def Let_def
  apply (rule sublist_here2 | rule sublist_skip)+
  done

section \<open>Properties of the rounding\<close>

text \<open>
  The three constants are the nearest binary64 numbers to the literals: each is within half a
  unit in the last place. The operands of \<open>temperature_num\<close> are the numerators of the
  product of the draw with \<open>0.15\<close> and of \<open>0.85\<close>, over \<open>2 ^ 108\<close>.
\<close>

lemma literals_nearest:
  "\<bar>double_0_85 - 85 / 100\<bar> \<le> 1 / 2 ^ 54"
  "\<bar>double_0_15 - 15 / 100\<bar> \<le> 1 / 2 ^ 56"
  "\<bar>double_0_95 - 95 / 100\<bar> \<le> 1 / 2 ^ 54"
  by (simp_all add: double_0_85_def double_0_15_def double_0_95_def)

lemma temperature_operands:
  "of_nat k / 2 ^ 53 * double_0_15 = of_nat (k * 5404319552844595) / 2 ^ 108"
  "double_0_85 = of_nat (7656119366529843 * 2 ^ 55) / 2 ^ 108"
  by (simp_all add: double_0_85_def double_0_15_def)

lemma round53_small: "floorlog 2 p \<le> 53 \<Longrightarrow> round53 p = p"
  by (simp add: round53_def)

lemma round53_big:
  assumes "53 < floorlog 2 p"
  defines "s \<equiv> floorlog 2 p - 53"
  shows "round53 p = (p div 2 ^ s) * 2 ^ s \<or>
         (round53 p = (p div 2 ^ s + 1) * 2 ^ s \<and> p mod 2 ^ s \<noteq> 0)"
proof -
  have s: "0 < s" using assms by simp
  then have half: "(0::nat) < 2 ^ (s - 1)" by simp
  show ?thesis
    using assms(1) half unfolding round53_def Let_def s_def
    by (auto simp del: zero_less_power)
qed

lemma floorlog_window:
  assumes "53 < floorlog 2 p"
  shows "2 ^ (floorlog 2 p - 1) \<le> p" and "p < 2 ^ floorlog 2 p"
proof -
  have "0 < p" using assms by (auto simp: floorlog_def split: if_splits)
  then show "2 ^ (floorlog 2 p - 1) \<le> p" and "p < 2 ^ floorlog 2 p"
    using floorlog_bounds [of p 2] by simp_all
qed

lemma round53_le:
  assumes le: "p \<le> m * 2 ^ t" and m: "m < 2 ^ 53"
  shows "round53 p \<le> m * 2 ^ t"
proof (cases "floorlog 2 p \<le> 53")
  case True
  then show ?thesis using le by (simp add: round53_small)
next
  case False
  then have big: "53 < floorlog 2 p" by simp
  define s where "s = floorlog 2 p - 53"
  have l: "floorlog 2 p - 1 = 52 + s" using big by (simp add: s_def)
  have low: "2 ^ (52 + s) \<le> p" using floorlog_window(1) [OF big] by (simp only: l)
  have ts: "s \<le> t"
  proof (rule ccontr)
    assume "\<not> s \<le> t"
    then have "t + 1 \<le> s" by simp
    have "m * 2 ^ t < 2 ^ 53 * 2 ^ t" using m by simp
    also have "\<dots> = (2::nat) ^ (52 + (t + 1))" by (simp add: power_add)
    also have "\<dots> \<le> 2 ^ (52 + s)" using \<open>t + 1 \<le> s\<close> by (intro power_increasing) simp_all
    finally show False using low le by simp
  qed
  then obtain d where t: "t = s + d" using le_Suc_ex by blast
  have B: "m * 2 ^ t = (m * 2 ^ d) * 2 ^ s" by (simp add: t power_add mult.commute mult.left_commute)
  have qle: "p div 2 ^ s \<le> m * 2 ^ d"
    using le unfolding B by (metis div_le_mono div_mult_self_is_m zero_less_numeral zero_less_power)
  from round53_big [OF big] show ?thesis
  proof (elim disjE conjE)
    assume "round53 p = p div 2 ^ (floorlog 2 p - 53) * 2 ^ (floorlog 2 p - 53)"
    then have "round53 p = (p div 2 ^ s) * 2 ^ s" by (simp add: s_def)
    then show ?thesis unfolding B using qle by simp
  next
    assume r: "round53 p = (p div 2 ^ (floorlog 2 p - 53) + 1) * 2 ^ (floorlog 2 p - 53)"
      and nz: "p mod 2 ^ (floorlog 2 p - 53) \<noteq> 0"
    have "p div 2 ^ s \<noteq> m * 2 ^ d"
    proof
      assume eq: "p div 2 ^ s = m * 2 ^ d"
      have pos: "0 < p mod 2 ^ s" using nz by (simp add: s_def)
      have "p = (p div 2 ^ s) * 2 ^ s + p mod 2 ^ s" by (rule div_mult_mod_eq [symmetric])
      then have "p = (m * 2 ^ d) * 2 ^ s + p mod 2 ^ s" by (simp only: eq)
      then have "m * 2 ^ t < p" using pos by (simp only: B)
      then show False using le by simp
    qed
    then have "p div 2 ^ s + 1 \<le> m * 2 ^ d" using qle by simp
    then have "(p div 2 ^ s + 1) * 2 ^ s \<le> (m * 2 ^ d) * 2 ^ s" by (rule mult_le_mono1)
    then show ?thesis using r unfolding B s_def by simp
  qed
qed

lemma round53_ge:
  assumes le: "m * 2 ^ t \<le> p" and m: "m < 2 ^ 53"
  shows "m * 2 ^ t \<le> round53 p"
proof (cases "floorlog 2 p \<le> 53")
  case True
  then show ?thesis using le by (simp add: round53_small)
next
  case False
  then have big: "53 < floorlog 2 p" by simp
  define s where "s = floorlog 2 p - 53"
  have l: "floorlog 2 p - 1 = 52 + s" using big by (simp add: s_def)
  have low: "2 ^ (52 + s) \<le> p" using floorlog_window(1) [OF big] by (simp only: l)
  have down: "m * 2 ^ t \<le> (p div 2 ^ s) * 2 ^ s"
  proof (cases "s \<le> t")
    case True
    then obtain d where t: "t = s + d" using le_Suc_ex by blast
    have B: "m * 2 ^ t = (m * 2 ^ d) * 2 ^ s"
      by (simp add: t power_add mult.commute mult.left_commute)
    have "m * 2 ^ d \<le> p div 2 ^ s"
      using le unfolding B by (metis div_le_mono div_mult_self_is_m zero_less_numeral zero_less_power)
    then show ?thesis unfolding B by simp
  next
    case False
    then have "t + 1 \<le> s" by simp
    have "m * 2 ^ t < 2 ^ 53 * 2 ^ t" using m by simp
    also have "\<dots> = (2::nat) ^ (52 + (t + 1))" by (simp add: power_add)
    also have "\<dots> \<le> 2 ^ (52 + s)" using \<open>t + 1 \<le> s\<close> by (intro power_increasing) simp_all
    finally have "m * 2 ^ t < 2 ^ 52 * 2 ^ s" by (simp add: power_add)
    moreover have "2 ^ 52 \<le> p div 2 ^ s"
    proof -
      have "(2::nat) ^ 52 * 2 ^ s \<le> p" using low by (simp add: power_add)
      then show ?thesis
        by (metis div_le_mono div_mult_self_is_m zero_less_numeral zero_less_power)
    qed
    then have "(2::nat) ^ 52 * 2 ^ s \<le> (p div 2 ^ s) * 2 ^ s" by (rule mult_le_mono1)
    ultimately show ?thesis by linarith
  qed
  from round53_big [OF big] have "(p div 2 ^ s) * 2 ^ s \<le> round53 p"
    unfolding s_def by (auto simp: add_mult_distrib)
  with down show ?thesis by simp
qed

lemma temperature_num_bounds:
  assumes "k < 2 ^ 53"
  shows "7656119366529843 * 2 ^ 55 \<le> temperature_num k" and "temperature_num k \<le> 2 ^ 108"
proof -
  let ?x = "round53 (k * 5404319552844595)"
  have "k * 5404319552844595 \<le> 5404319552844595 * 2 ^ 53" using assms by simp
  then have x: "?x \<le> 5404319552844595 * 2 ^ 53" by (rule round53_le) simp
  have "7656119366529843 * 2 ^ 55 + ?x \<le> 2 ^ 52 * 2 ^ 56" using x by simp
  then have "round53 (7656119366529843 * 2 ^ 55 + ?x) \<le> 2 ^ 52 * 2 ^ 56"
    by (rule round53_le) simp
  then show "temperature_num k \<le> 2 ^ 108" by (simp add: temperature_num_def)
  have "7656119366529843 * 2 ^ 55 \<le> 7656119366529843 * 2 ^ 55 + ?x" by simp
  then have "7656119366529843 * 2 ^ 55 \<le> round53 (7656119366529843 * 2 ^ 55 + ?x)"
    by (rule round53_ge) simp
  then show "7656119366529843 * 2 ^ 55 \<le> temperature_num k" by (simp add: temperature_num_def)
qed

section \<open>Properties of the completion client\<close>

lemma handle_exception_result:
  "fst (handle_exception x w) = None"
  "sent (snd (handle_exception x w)) = sent w"
  "st_warning (snd (handle_exception x w)) = st_warning w"
  by (simp_all add: handle_exception_def show_error_def)

lemma handle_exception_message:
  "st_error (snd (handle_exception x w)) = st_error w @
     [if is_Timeout x then stopwatch @ '' Generation timed out''
      else if is_ConnectionError x then electric_plug @ '' Cannot connect to Groq API''
      else cross_mark @ '' Error generating content: '' @ exn_str x]"
  by (simp add: handle_exception_def show_error_def)

lemma generate_with_groq_no_key:
  "GROQ_API_KEY e = [] \<Longrightarrow>
     generate_with_groq e p sp t w =
       (None, show_error (cross_mark @ '' GROQ_API_KEY not configured'') w)"
  by (simp add: generate_with_groq_def)

lemma generate_with_groq_sent:
  "sent (snd (generate_with_groq e p sp t w)) =
     (if GROQ_API_KEY e = [] then sent w
      else sent w @ [generation_request (GROQ_API_KEY e) p sp t])"
  by (simp add: generate_with_groq_def Let_def show_error_def handle_exception_result
           split: sum.splits)

lemma generate_with_groq_raised:
  assumes "GROQ_API_KEY e \<noteq> []"
    and "post e (generation_request (GROQ_API_KEY e) p sp t) = Inl x"
  shows "generate_with_groq e p sp t w =
           handle_exception x (w\<lparr>sent := sent w @ [generation_request (GROQ_API_KEY e) p sp t]\<rparr>)"
  using assms by (simp add: generate_with_groq_def Let_def)

lemma generate_with_groq_status:
  assumes "GROQ_API_KEY e \<noteq> []"
    and "post e (generation_request (GROQ_API_KEY e) p sp t) = Inr r"
    and "status_code r \<noteq> 200"
  shows "fst (generate_with_groq e p sp t w) = None"
    and "st_error (snd (generate_with_groq e p sp t w)) = st_error w @
           [''Groq API returned status code: '' @ str_int (status_code r),
            ''Response: '' @ response_text r]"
  using assms by (simp_all add: generate_with_groq_def Let_def show_error_def)

lemma generate_with_groq_Some:
  assumes "fst (generate_with_groq e p sp t w) = Some c"
  shows "\<exists>r result. GROQ_API_KEY e \<noteq> [] \<and>
           post e (generation_request (GROQ_API_KEY e) p sp t) = Inr r \<and>
           status_code r = 200 \<and> response_json r = Inr result \<and>
           extract_content result = Inr c"
  using assms
  by (auto simp: generate_with_groq_def Let_def handle_exception_result
          split: if_splits sum.splits)

lemma generate_cv_sections_unfold:
  "generate_cv_sections e data n w =
    (let R = generate_with_groq e (prompt data n) (system_prompt data n)
               (sample_temperature (random_k e)) w
     in case fst R of
          None \<Rightarrow> (None, snd R)
        | Some t \<Rightarrow>
            if t \<noteq> [] then
              (Some [''text'' \<mapsto> PyStr t,
                     ''timestamp'' \<mapsto> PyStr (now e),
                     ''designation'' \<mapsto> PyStr (dict_get data ''designation'' ''''),
                     ''market'' \<mapsto> PyStr (target_market (dict_get data ''aspiration'' '''')),
                     ''aspiration'' \<mapsto> PyStr (dict_get data ''aspiration'' ''''),
                     ''university'' \<mapsto> PyStr (dict_get data ''university'' ''''),
                     ''variation'' \<mapsto> PyInt (n + 1)], snd R)
            else (None, snd R))"
  by (simp add: generate_cv_sections_def Let_def split: prod.splits option.splits)

lemma generate_cv_sections_world:
  "snd (generate_cv_sections e data n w) =
     snd (generate_with_groq e (prompt data n) (system_prompt data n)
            (sample_temperature (random_k e)) w)"
  by (simp add: generate_cv_sections_unfold Let_def split: option.splits)

section \<open>Properties of the concrete inputs and of the extraction\<close>

lemma env_with_sel:
  "GROQ_API_KEY (env_with key outcome k) = key"
  "post (env_with key outcome k) rq = outcome"
  "random_k (env_with key outcome k) = k"
  "now (env_with key outcome k) = ''2025-01-01 09:30:00''"
  by (simp_all add: env_with_def)

lemma handle_exception_eq:
  "handle_exception x w = (None, show_error (exception_message x) w)"
  by (simp add: handle_exception_def exception_message_def)

lemma extract_content_completion: "extract_content (JObj [(''choices'',
         JArr [JObj [(''message'', JObj [(''content'', JStr c)])]])]) = Inr (strip c)"
  by (simp add: extract_content_def)

lemma generate_with_groq_completion:
  "key \<noteq> [] \<Longrightarrow>
   generate_with_groq (env_with key (completion c) k) p sp t w =
     (Some (strip c), w\<lparr>sent := sent w @ [generation_request key p sp t]\<rparr>)"
  by (simp add: generate_with_groq_def env_with_sel completion_def extract_content_completion
        Let_def)

lemma startup_aspiration:
  "dict_get (form_data_of startup_form) ''aspiration'' '''' = ''New Start-up (Business)''"
  by (simp add: dict_get_def form_data_of_def startup_form_def)

lemma entrepreneur_reply:
  "fst (generate_with_groq entrepreneur_env p sp t w) = Some ''I am an aspiring entrepreneur...''"
  by (simp add: entrepreneur_env_def generate_with_groq_completion strip_def continuation_def
        isspace_def whitespace_def)

lemma extract_content_absent:
  "map_of kvs ''choices'' = None \<Longrightarrow> extract_content (JObj kvs) = Inr []"
  "map_of kvs ''choices'' = Some (JArr (JObj c # rest)) \<Longrightarrow> map_of c ''message'' = None \<Longrightarrow>
     extract_content (JObj kvs) = Inr []"
  "map_of kvs ''choices'' = Some (JArr (JObj c # rest)) \<Longrightarrow>
     map_of c ''message'' = Some (JObj m) \<Longrightarrow> map_of m ''content'' = None \<Longrightarrow>
     extract_content (JObj kvs) = Inr []"
  "map_of kvs ''choices'' = Some (JArr (JObj c # rest)) \<Longrightarrow>
     map_of c ''message'' = Some (JObj m) \<Longrightarrow> map_of m ''content'' = Some (JStr s) \<Longrightarrow>
     extract_content (JObj kvs) = Inr (strip s)"
  by (simp_all add: extract_content_def strip_def)

section \<open>Failures of the completion client\<close>

lemma messages_differ:
  "distinct [cross_mark @ '' GROQ_API_KEY not configured'',
             stopwatch @ '' Generation timed out'',
             electric_plug @ '' Cannot connect to Groq API'',
             cross_mark @ '' Error generating content: '' @ m,
             ''Groq API returned status code: '' @ c,
             ''Response: '' @ b]"
  by (simp add: cross_mark_def stopwatch_def electric_plug_def)

lemma generate_with_groq_exception:
  assumes "GROQ_API_KEY e \<noteq> []"
    and "post e (generation_request (GROQ_API_KEY e) p sp t) = Inl x \<or>
         (\<exists>r. post e (generation_request (GROQ_API_KEY e) p sp t) = Inr r \<and>
              status_code r = 200 \<and>
              (response_json r = Inl x \<or>
               (\<exists>result. response_json r = Inr result \<and> extract_content result = Inl x)))"
  shows "fst (generate_with_groq e p sp t w) = None"
    and "st_error (snd (generate_with_groq e p sp t w)) = st_error w @ [exception_message x]"
  using assms
  by (auto simp: generate_with_groq_def Let_def handle_exception_eq show_error_def)

lemma generate_with_groq_None:
  assumes "fst (generate_with_groq e p sp t w) = None" and "GROQ_API_KEY e \<noteq> []"
  shows "(\<exists>x. post e (generation_request (GROQ_API_KEY e) p sp t) = Inl x) \<or>
         (\<exists>r. post e (generation_request (GROQ_API_KEY e) p sp t) = Inr r \<and>
              (status_code r \<noteq> 200 \<or> (\<exists>x. response_json r = Inl x) \<or>
               (\<exists>result x. response_json r = Inr result \<and> extract_content result = Inl x)))"
  using assms
  by (auto simp: generate_with_groq_def Let_def split: sum.splits if_splits)

lemma check_groq_connection_status:
  assumes "GROQ_API_KEY e \<noteq> []"
    and "post e (probe_request (GROQ_API_KEY e)) = Inr r" and "status_code r \<noteq> 200"
  shows "fst (check_groq_connection e w) =
           (False, ''Status: '' @ str_int (status_code r) @ '' - '' @
                   take_chars 100 (response_text r))"
    and "length (chars (take_chars 100 (response_text r))) \<le> 100"
  using assms by (simp_all add: check_groq_connection_def Let_def chars_take_chars)

section \<open>Properties of the session and of the stripped text\<close>

lemma client_messages:
  "\<exists>ms. st_error (snd (generate_with_groq e p sp t w)) = st_error w @ ms \<and>
        validation_message \<notin> set ms"
proof -
  have v: "validation_message \<noteq> exception_message x" for x
    by (simp add: validation_message_def exception_message_def stopwatch_def electric_plug_def
          cross_mark_def)
  have k: "validation_message \<noteq> cross_mark @ '' GROQ_API_KEY not configured''"
    by (simp add: validation_message_def cross_mark_def)
  have s: "validation_message \<noteq> ''Groq API returned status code: '' @ c"
    "validation_message \<noteq> ''Response: '' @ b" for c b
    by (simp_all add: validation_message_def)
  show ?thesis
    using v k s
    by (auto simp: generate_with_groq_def Let_def handle_exception_eq show_error_def
            split: sum.splits)
qed

lemma form_data_of_aspiration: "form_data_of f ''aspiration'' = Some (aspiration f)"
  by (simp add: form_data_of_def)

lemma form_data_of_nonempty: "form_data_of f \<noteq> Map.empty"
  using form_data_of_aspiration [of f] by (metis option.distinct(1))

lemma form_changed_iff:
  "(form_data s ''aspiration'' \<noteq> Some (aspiration f) \<or> form_data s \<noteq> form_data_of f) \<longleftrightarrow>
   form_data s \<noteq> form_data_of f"
  using form_data_of_aspiration [of f] by auto

lemma submit_form_blocked:
  "achievements f = [] \<Longrightarrow> submit_form e f s w = (s, show_error validation_message w)"
  by (simp add: submit_form_def)

lemma submit_form_count:
  assumes "achievements f \<noteq> []"
  shows "variation_count (fst (submit_form e f s w)) =
           (let n = (if form_data s \<noteq> form_data_of f then 0 else variation_count s)
            in if fst (generate_cv_sections e (form_data_of f) n w) \<noteq> None then n + 1 else n)"
    and "form_data (fst (submit_form e f s w)) = form_data_of f"
    and "snd (submit_form e f s w) =
           snd (generate_cv_sections e (form_data_of f)
                  (if form_data s \<noteq> form_data_of f then 0 else variation_count s) w)"
  using assms
  by (auto simp: submit_form_def Let_def form_data_of_aspiration
          split: prod.splits option.splits)

lemma regenerate_count:
  assumes "form_data s \<noteq> Map.empty"
  shows "variation_count (fst (regenerate e s w)) =
           (if fst (generate_cv_sections e (form_data s) (variation_count s) w) \<noteq> None
            then variation_count s + 1 else variation_count s)"
  using assms by (auto simp: regenerate_def Let_def split: prod.splits option.splits)

lemma generate_with_groq_stripped:
  assumes "fst (generate_with_groq e p sp t w) = Some c"
  shows "\<exists>s. c = strip s"
proof -
  from generate_with_groq_Some [OF assms] obtain result where "extract_content result = Inr c"
    by blast
  then show ?thesis
    by (auto simp: extract_content_def split: sum.splits elim!: py_strip.elims)
qed

lemma entrepreneur_section:
  "fst (generate_cv_sections entrepreneur_env data n w) \<noteq> None"
  by (simp add: generate_cv_sections_unfold Let_def entrepreneur_reply)

lemma server_error_section:
  "fst (generate_cv_sections server_error_env data n w) = None"
  by (simp add: generate_cv_sections_unfold Let_def generate_with_groq_def server_error_env_def
        env_with_sel reply_def)

lemma server_error_reply:
  "fst (generate_with_groq server_error_env p sp t w) = None"
  by (simp add: generate_with_groq_def server_error_env_def env_with_sel reply_def)

lemma whitespace_reply:
  "fst (generate_with_groq whitespace_env p sp t w) = Some []"
  by (simp add: whitespace_env_def generate_with_groq_completion strip_def continuation_def
        isspace_def whitespace_def)

lemma accent_reply:
  "fst (generate_with_groq accent_env p sp t w) =
     Some (''D'' @ [CHR 0xC3, CHR 0xA9] @ ''j'' @ [CHR 0xC3, CHR 0xA0])"
  by (simp add: accent_env_def generate_with_groq_completion strip_def continuation_def
        isspace_def whitespace_def)

lemma accent_section:
  "fst (generate_cv_sections accent_env data n w) \<noteq> None"
  by (simp add: generate_cv_sections_unfold Let_def accent_reply)

lemma lums_form_differs: "form_data_of startup_form \<noteq> form_data_of lums_form"
proof
  assume "form_data_of startup_form = form_data_of lums_form"
  then have "form_data_of startup_form ''university'' = form_data_of lums_form ''university''"
    by simp
  then show False by (simp add: form_data_of_def startup_form_def lums_form_def)
qed

lemma form_data_of_fields:
  "university f = the (form_data_of f ''university'')"
  "major_subject f = the (form_data_of f ''major_subject'')"
  "degree_status f = the (form_data_of f ''degree_status'')"
  "passout_session f = the (form_data_of f ''passout_session'')"
  "final_year_project f = the (form_data_of f ''final_year_project'')"
  "organization f = the (form_data_of f ''organization'')"
  "designation f = the (form_data_of f ''designation'')"
  "experience_years f = the (form_data_of f ''experience_years'')"
  "experience_status f = the (form_data_of f ''experience_status'')"
  "industry f = the (form_data_of f ''industry'')"
  "work_detail f = the (form_data_of f ''work_detail'')"
  "technical_skills f = the (form_data_of f ''technical_skills'')"
  "it_skills f = the (form_data_of f ''it_skills'')"
  "interests f = the (form_data_of f ''interests'')"
  "certifications f = the (form_data_of f ''certifications'')"
  "medal_holder f = the (form_data_of f ''medal_holder'')"
  "achievements f = the (form_data_of f ''achievements'')"
  "honours f = the (form_data_of f ''honours'')"
  "ref_name f = the (form_data_of f ''ref_name'')"
  "ref_designation f = the (form_data_of f ''ref_designation'')"
  "ref_organization f = the (form_data_of f ''ref_organization'')"
  "aspiration f = the (form_data_of f ''aspiration'')"
  by (simp_all add: form_data_of_def)

lemma form_data_of_inject:
  fixes f f' :: form
  shows "(form_data_of f = form_data_of f') = (f = f')"
proof
  assume eq: "form_data_of f = form_data_of f'"
  show "f = f'"
    by (rule form.equality) (simp_all add: form_data_of_fields eq)
next
  assume "f = f'"
  then show "form_data_of f = form_data_of f'" by simp
qed

lemma award_form_differs: "form_data_of startup_form \<noteq> form_data_of award_form"
  by (simp add: form_data_of_inject startup_form_def award_form_def)

lemma blank_form_differs: "form_data_of startup_form \<noteq> form_data_of blank_form"
  by (simp add: form_data_of_inject startup_form_def blank_form_def)

section \<open>The claims\<close>

text \<open>
  Claim C1. The style directive of variation \<open>n\<close> is entry \<open>n mod 10\<close> of a fixed list
  of 10 distinct entries; it is a function of \<open>n\<close> alone, and it is part of the user prompt
  of the one request that \<open>generate_cv_sections\<close> sends, whatever the random draw. Two
  variation numbers less than 10 apart select different directives.
\<close>

theorem variation_style_selection:
  "length variation_styles = 10 \<and> distinct variation_styles \<and>
   variation_style n = variation_styles ! nat (n mod 10) \<and>
   (0 < m - n \<longrightarrow> m - n < 10 \<longrightarrow> variation_style n \<noteq> variation_style m) \<and>
   sublist (variation_style n) (prompt data n) \<and>
   sent (snd (generate_cv_sections e data n w)) =
     (if GROQ_API_KEY e = [] then sent w
      else sent w @ [generation_request (GROQ_API_KEY e) (prompt data n) (system_prompt data n)
                       (sample_temperature (random_k e))])"
proof (intro conjI impI)
  show "length variation_styles = 10" by (rule length_variation_styles)
  show "distinct variation_styles" by (rule distinct_variation_styles)
  show "variation_style n = variation_styles ! nat (n mod 10)"
    by (simp add: variation_style_def length_variation_styles)
  show "sublist (variation_style n) (prompt data n)" by (rule sublist_variation_style)
  show "sent (snd (generate_cv_sections e data n w)) =
     (if GROQ_API_KEY e = [] then sent w
      else sent w @ [generation_request (GROQ_API_KEY e) (prompt data n) (system_prompt data n)
                       (sample_temperature (random_k e))])"
    by (simp add: generate_cv_sections_world generate_with_groq_sent)
next
  assume d: "0 < m - n" "m - n < 10"
  have "nat (n mod 10) < length variation_styles" "nat (m mod 10) < length variation_styles"
    by (simp_all add: length_variation_styles)
  then show "variation_style n \<noteq> variation_style m"
    using style_index_differs [OF d] distinct_variation_styles
    by (simp add: variation_style_def length_variation_styles nth_eq_iff_index_eq)
qed

text \<open>The theorem of C1 at the variation numbers 3, 7 and 13.\<close>

theorem variation_style_selection_witness:
  "0 < (7::int) - 3 \<and> (7::int) - 3 < 10 \<and> variation_style 3 \<noteq> variation_style 7 \<and>
   variation_style 3 = variation_styles ! 3 \<and> variation_style 13 = variation_styles ! 3"
proof -
  note inst = variation_style_selection [where data = "form_data_of startup_form"
      and e = "env_with ''gsk'' (completion ''I am.'') 0" and w = empty_world]
  have h: "0 < (7::int) - 3" "(7::int) - 3 < 10" by simp_all
  from inst [of 3 7] h have a: "variation_style 3 \<noteq> variation_style 7" by blast
  from inst [of 3 7] have "variation_style 3 = variation_styles ! nat (3 mod 10)" by blast
  then have b: "variation_style 3 = variation_styles ! 3" by simp
  from inst [of 13 7] have "variation_style 13 = variation_styles ! nat (13 mod 10)" by blast
  then have c: "variation_style 13 = variation_styles ! 3" by simp
  from h a b c show ?thesis by blast
qed

text \<open>
  Claim C2. The target market is \<open>International\<close> exactly for the aspirations
  \<open>Interested in studying abroad\<close> and \<open>Work as a freelancer\<close>; for every other value,
  the four other options of the form among them, it is \<open>Pakistan\<close>.
\<close>

theorem target_market_classification:
  "(target_market a = ''International'' \<longleftrightarrow>
      a = ''Interested in studying abroad'' \<or> a = ''Work as a freelancer'') \<and>
   (a \<noteq> ''Interested in studying abroad'' \<longrightarrow> a \<noteq> ''Work as a freelancer'' \<longrightarrow>
      target_market a = ''Pakistan'') \<and>
   target_market ''Interested in Job'' = ''Pakistan'' \<and>
   target_market ''Want to serve Family Business'' = ''Pakistan'' \<and>
   target_market ''New Start-up (Business)'' = ''Pakistan'' \<and>
   target_market ''Want to continue studies in Pakistan'' = ''Pakistan'' \<and>
   map target_market aspiration_options =
     [''Pakistan'', ''International'', ''Pakistan'', ''Pakistan'', ''International'',
      ''Pakistan'']"
  by (simp add: target_market_def aspiration_options_def)

text \<open>The theorem of C2 at one aspiration of each market.\<close>

theorem target_market_classification_witness:
  "''Interested in Job'' \<noteq> ''Interested in studying abroad'' \<and>
   ''Interested in Job'' \<noteq> ''Work as a freelancer'' \<and>
   target_market ''Interested in Job'' = ''Pakistan'' \<and>
   target_market ''Work as a freelancer'' = ''International''"
  using target_market_classification [of "''Interested in Job''"]
    target_market_classification [of "''Work as a freelancer''"]
  by simp

text \<open>
  Claim C3, as stated, fails: the completion client succeeds on a status 200 whose content
  is empty, it returns the empty string, and \<open>generate_cv_sections\<close> then returns
  \<open>None\<close>, not a record.
\<close>

theorem empty_completion_gives_no_section:
  "fst (generate_with_groq (env_with ''gsk'' (completion []) 0)
          (prompt (form_data_of startup_form) 3) (system_prompt (form_data_of startup_form) 3)
          (sample_temperature 0) empty_world) = Some [] \<and>
   fst (generate_cv_sections (env_with ''gsk'' (completion []) 0)
          (form_data_of startup_form) 3 empty_world) = None"
  by (simp add: generate_cv_sections_unfold generate_with_groq_completion env_with_sel
        strip_def Let_def)

text \<open>
  Claim C3, amended. The system prompt contains \<open>Variation #\<close> followed by \<open>n + 1\<close>.
  When the completion client returns a text that is not empty, \<open>generate_cv_sections\<close>
  returns a record with that text, with \<open>variation = n + 1\<close>, and with the market and the
  aspiration of the profile. For the aspiration \<open>New Start-up (Business)\<close> and the
  variation number 3 the style is entry 3 of the list, the market is \<open>Pakistan\<close>, the
  system prompt contains \<open>Variation #4\<close> and the record has \<open>variation = 4\<close>.
\<close>

theorem generated_section_fields:
  "sublist (''Variation #'' @ str_int (n + 1)) (system_prompt data n) \<and>
   (fst (generate_with_groq e (prompt data n) (system_prompt data n)
           (sample_temperature (random_k e)) w) = Some t \<longrightarrow> t \<noteq> [] \<longrightarrow>
      (\<exists>g. fst (generate_cv_sections e data n w) = Some g \<and>
           g ''text'' = Some (PyStr t) \<and>
           g ''variation'' = Some (PyInt (n + 1)) \<and>
           g ''market'' = Some (PyStr (target_market (dict_get data ''aspiration'' ''''))) \<and>
           g ''aspiration'' = Some (PyStr (dict_get data ''aspiration'' '''')))) \<and>
   (dict_get data ''aspiration'' '''' = ''New Start-up (Business)'' \<longrightarrow>
      variation_style 3 =
        ''Start with your adaptability and how you embrace new challenges and learning.'' \<and>
      variation_style 3 = variation_styles ! 3 \<and>
      target_market (dict_get data ''aspiration'' '''') = ''Pakistan'' \<and>
      sublist ''Variation #4'' (system_prompt data 3) \<and>
      (fst (generate_with_groq e (prompt data 3) (system_prompt data 3)
              (sample_temperature (random_k e)) w) = Some t \<longrightarrow> t \<noteq> [] \<longrightarrow>
         (\<exists>g. fst (generate_cv_sections e data 3 w) = Some g \<and>
              g ''variation'' = Some (PyInt 4) \<and>
              g ''market'' = Some (PyStr ''Pakistan'') \<and>
              g ''aspiration'' = Some (PyStr ''New Start-up (Business)''))))"
proof -
  have fields: "\<exists>g. fst (generate_cv_sections e data k w) = Some g \<and>
           g ''text'' = Some (PyStr t) \<and>
           g ''variation'' = Some (PyInt (k + 1)) \<and>
           g ''market'' = Some (PyStr (target_market (dict_get data ''aspiration'' ''''))) \<and>
           g ''aspiration'' = Some (PyStr (dict_get data ''aspiration'' ''''))"
    if "fst (generate_with_groq e (prompt data k) (system_prompt data k)
           (sample_temperature (random_k e)) w) = Some t" "t \<noteq> []" for k
    using that by (simp add: generate_cv_sections_unfold Let_def)
  have style: "variation_style 3 =
        ''Start with your adaptability and how you embrace new challenges and learning.''"
    "variation_style 3 = variation_styles ! 3"
    by (simp_all add: variation_style_def variation_styles_def)
  have four: "sublist ''Variation #4'' (system_prompt data 3)"
    using sublist_variation_number [of 3 data] by (simp add: str_int_def str_nat.simps)
  have startup: "target_market ''New Start-up (Business)'' = ''Pakistan''"
    by (simp add: target_market_def)
  show ?thesis
  proof (intro conjI impI)
    show "sublist (''Variation #'' @ str_int (n + 1)) (system_prompt data n)"
      by (rule sublist_variation_number)
  next
    assume "fst (generate_with_groq e (prompt data n) (system_prompt data n)
           (sample_temperature (random_k e)) w) = Some t" "t \<noteq> []"
    then show "\<exists>g. fst (generate_cv_sections e data n w) = Some g \<and>
           g ''text'' = Some (PyStr t) \<and>
           g ''variation'' = Some (PyInt (n + 1)) \<and>
           g ''market'' = Some (PyStr (target_market (dict_get data ''aspiration'' ''''))) \<and>
           g ''aspiration'' = Some (PyStr (dict_get data ''aspiration'' ''''))"
      by (rule fields)
  next
    show "variation_style 3 =
        ''Start with your adaptability and how you embrace new challenges and learning.''"
      by (rule style)
    show "variation_style 3 = variation_styles ! 3" by (rule style)
    show "sublist ''Variation #4'' (system_prompt data 3)" by (rule four)
  next
    assume a: "dict_get data ''aspiration'' '''' = ''New Start-up (Business)''"
    show "target_market (dict_get data ''aspiration'' '''') = ''Pakistan''"
      by (simp only: a startup)
    assume "fst (generate_with_groq e (prompt data 3) (system_prompt data 3)
              (sample_temperature (random_k e)) w) = Some t" "t \<noteq> []"
    from fields [OF this] show "\<exists>g. fst (generate_cv_sections e data 3 w) = Some g \<and>
              g ''variation'' = Some (PyInt 4) \<and>
              g ''market'' = Some (PyStr ''Pakistan'') \<and>
              g ''aspiration'' = Some (PyStr ''New Start-up (Business)'')"
      by (auto simp: a startup)
  qed
qed

text \<open>The theorem of C3 on the start-up form, with a service that returns a sentence.\<close>

theorem generated_section_fields_witness:
  "dict_get (form_data_of startup_form) ''aspiration'' '''' = ''New Start-up (Business)'' \<and>
   fst (generate_with_groq entrepreneur_env (prompt (form_data_of startup_form) 3)
          (system_prompt (form_data_of startup_form) 3)
          (sample_temperature (random_k entrepreneur_env)) empty_world) =
     Some ''I am an aspiring entrepreneur...'' \<and>
   ''I am an aspiring entrepreneur...'' \<noteq> [] \<and>
   (\<exists>g. fst (generate_cv_sections entrepreneur_env (form_data_of startup_form) 3 empty_world) =
          Some g \<and>
        g ''variation'' = Some (PyInt 4) \<and> g ''market'' = Some (PyStr ''Pakistan'') \<and>
        g ''aspiration'' = Some (PyStr ''New Start-up (Business)''))"
  using generated_section_fields [of 3 "form_data_of startup_form" entrepreneur_env empty_world
      "''I am an aspiring entrepreneur...''"] startup_aspiration entrepreneur_reply
  by simp

text \<open>
  Claim C4, as stated, fails: for the largest draw below 1, which is
  \<open>(2 ^ 53 - 1) / 2 ^ 53\<close>, the product rounds to the number just below the binary64
  \<open>0.15\<close> and the sum lies halfway between 1 and the number just below it, so it rounds to
  the even one: the temperature is exactly 1.
\<close>

theorem temperature_reaches_one:
  "(2 ^ 53 - 1 :: nat) < 2 ^ 53 \<and> sample_temperature (2 ^ 53 - 1) = 1 \<and>
   \<not> sample_temperature (2 ^ 53 - 1) < 1"
  by (simp add: sample_temperature_def temperature_num_def round53_def compute_floorlog Let_def)

text \<open>
  Claim C4, amended. For every draw \<open>k / 2 ^ 53\<close> below 1 the temperature lies between
  the binary64 \<open>0.85\<close> and 1, both included. The request carries the temperature of the
  draw, whatever the variation number.
\<close>

theorem temperature_range:
  "(k < 2 ^ 53 \<longrightarrow> double_0_85 \<le> sample_temperature k \<and> sample_temperature k \<le> 1) \<and>
   (GROQ_API_KEY e \<noteq> [] \<longrightarrow>
      map (temperature \<circ> body) (sent (snd (generate_cv_sections e data n w))) =
        map (temperature \<circ> body) (sent w) @ [Some (sample_temperature (random_k e))])"
proof -
  have "double_0_85 \<le> sample_temperature k \<and> sample_temperature k \<le> 1" if "k < 2 ^ 53"
  proof -
    have lo: "(7656119366529843::nat) * 2 ^ 55 \<le> temperature_num k"
      and hi: "temperature_num k \<le> 2 ^ 108"
      using temperature_num_bounds [OF that] by simp_all
    have "(of_nat (7656119366529843 * 2 ^ 55) :: rat) \<le> of_nat (temperature_num k)"
      using lo by (simp only: of_nat_le_iff)
    then have a: "double_0_85 \<le> sample_temperature k"
      by (simp add: double_0_85_def sample_temperature_def field_simps)
    have "(of_nat (temperature_num k) :: rat) \<le> of_nat (2 ^ 108)"
      using hi by (simp only: of_nat_le_iff)
    then have b: "sample_temperature k \<le> 1"
      by (simp add: sample_temperature_def field_simps)
    from a b show ?thesis ..
  qed
  then show ?thesis
    by (simp add: generate_cv_sections_world generate_with_groq_sent generation_request_def)
qed

text \<open>The theorem of C4 at the draw one half.\<close>

theorem temperature_range_witness:
  "(2 ^ 52 :: nat) < 2 ^ 53 \<and> double_0_85 \<le> sample_temperature (2 ^ 52) \<and>
   sample_temperature (2 ^ 52) \<le> 1 \<and>
   GROQ_API_KEY (env_with ''gsk'' (completion ''I am.'') (2 ^ 52)) \<noteq> [] \<and>
   map (temperature \<circ> body)
     (sent (snd (generate_cv_sections (env_with ''gsk'' (completion ''I am.'') (2 ^ 52))
                   (form_data_of startup_form) 3 empty_world))) =
     [Some (sample_temperature (2 ^ 52))]"
  using temperature_range [of "2 ^ 52" "env_with ''gsk'' (completion ''I am.'') (2 ^ 52)"
      "form_data_of startup_form" 3 empty_world]
  by (simp add: env_with_def empty_world_def)

text \<open>
  Claim C5, as stated, fails: a response with status 201 is within 2xx and raises nothing,
  yet the client reports its status code as an error and returns \<open>None\<close>. The source
  tests \<open>status_code == 200\<close>.
\<close>

theorem status_201_is_a_failure:
  "post (env_with ''gsk'' (reply 201 ''{}'' (Inr (JObj []))) 0)
     (generation_request ''gsk'' ''user prompt'' ''system prompt'' 1) =
     Inr \<lparr>status_code = 201, response_text = ''{}'', response_json = Inr (JObj [])\<rparr> \<and>
   (200::int) \<le> 201 \<and> (201::int) < 300 \<and>
   generate_with_groq (env_with ''gsk'' (reply 201 ''{}'' (Inr (JObj []))) 0)
     ''user prompt'' ''system prompt'' 1 empty_world =
     (None, \<lparr>sent = [generation_request ''gsk'' ''user prompt'' ''system prompt'' 1],
             st_error = [''Groq API returned status code: 201'', ''Response: {}''],
             st_warning = []\<rparr>)"
  by (simp add: generate_with_groq_def env_with_sel reply_def empty_world_def show_error_def
        Let_def str_int_def str_nat.simps)

text \<open>
  Claim C5, amended. Without a key the client returns \<open>None\<close> and sends nothing. With a
  key it sends exactly one request, whatever happens next. An exception raised by the call
  or while the body of a status 200 response is read, and a response whose status is not
  200, each give \<open>None\<close>; a \<open>None\<close> has no other cause. The exception is reported
  as a timeout, else as a connection failure, else with its own text, in this order; the
  messages of the classes are pairwise different.
\<close>

theorem completion_client_failures:
  "(GROQ_API_KEY e = [] \<longrightarrow>
      fst (generate_with_groq e p sp t w) = None \<and>
      sent (snd (generate_with_groq e p sp t w)) = sent w \<and>
      st_error (snd (generate_with_groq e p sp t w)) =
        st_error w @ [cross_mark @ '' GROQ_API_KEY not configured'']) \<and>
   (GROQ_API_KEY e \<noteq> [] \<longrightarrow>
      sent (snd (generate_with_groq e p sp t w)) =
        sent w @ [generation_request (GROQ_API_KEY e) p sp t]) \<and>
   (GROQ_API_KEY e \<noteq> [] \<longrightarrow>
      post e (generation_request (GROQ_API_KEY e) p sp t) = Inl x \<or>
      (\<exists>r. post e (generation_request (GROQ_API_KEY e) p sp t) = Inr r \<and>
           status_code r = 200 \<and>
           (response_json r = Inl x \<or>
            (\<exists>result. response_json r = Inr result \<and> extract_content result = Inl x))) \<longrightarrow>
      fst (generate_with_groq e p sp t w) = None \<and>
      st_error (snd (generate_with_groq e p sp t w)) = st_error w @ [exception_message x]) \<and>
   (GROQ_API_KEY e \<noteq> [] \<longrightarrow>
      post e (generation_request (GROQ_API_KEY e) p sp t) = Inr r \<longrightarrow>
      status_code r \<noteq> 200 \<longrightarrow>
      fst (generate_with_groq e p sp t w) = None \<and>
      st_error (snd (generate_with_groq e p sp t w)) = st_error w @
        [''Groq API returned status code: '' @ str_int (status_code r),
         ''Response: '' @ response_text r]) \<and>
   (GROQ_API_KEY e \<noteq> [] \<longrightarrow> fst (generate_with_groq e p sp t w) = None \<longrightarrow>
      (\<exists>y. post e (generation_request (GROQ_API_KEY e) p sp t) = Inl y) \<or>
      (\<exists>r'. post e (generation_request (GROQ_API_KEY e) p sp t) = Inr r' \<and>
            (status_code r' \<noteq> 200 \<or> (\<exists>y. response_json r' = Inl y) \<or>
             (\<exists>result y. response_json r' = Inr result \<and> extract_content result = Inl y)))) \<and>
   exception_message x =
     (if is_Timeout x then stopwatch @ '' Generation timed out''
      else if is_ConnectionError x then electric_plug @ '' Cannot connect to Groq API''
      else cross_mark @ '' Error generating content: '' @ exn_str x) \<and>
   distinct [cross_mark @ '' GROQ_API_KEY not configured'',
             stopwatch @ '' Generation timed out'',
             electric_plug @ '' Cannot connect to Groq API'',
             cross_mark @ '' Error generating content: '' @ exn_str x,
             ''Groq API returned status code: '' @ str_int (status_code r),
             ''Response: '' @ response_text r]"
proof (intro conjI impI)
  assume "GROQ_API_KEY e = []"
  then show "fst (generate_with_groq e p sp t w) = None"
    and "sent (snd (generate_with_groq e p sp t w)) = sent w"
    and "st_error (snd (generate_with_groq e p sp t w)) =
        st_error w @ [cross_mark @ '' GROQ_API_KEY not configured'']"
    by (simp_all add: generate_with_groq_no_key show_error_def)
next
  assume "GROQ_API_KEY e \<noteq> []"
  then show "sent (snd (generate_with_groq e p sp t w)) =
        sent w @ [generation_request (GROQ_API_KEY e) p sp t]"
    by (simp add: generate_with_groq_sent)
next
  assume k: "GROQ_API_KEY e \<noteq> []"
    and x: "post e (generation_request (GROQ_API_KEY e) p sp t) = Inl x \<or>
      (\<exists>r. post e (generation_request (GROQ_API_KEY e) p sp t) = Inr r \<and>
           status_code r = 200 \<and>
           (response_json r = Inl x \<or>
            (\<exists>result. response_json r = Inr result \<and> extract_content result = Inl x)))"
  show "fst (generate_with_groq e p sp t w) = None"
    by (rule generate_with_groq_exception(1) [OF k x])
  show "st_error (snd (generate_with_groq e p sp t w)) = st_error w @ [exception_message x]"
    by (rule generate_with_groq_exception(2) [OF k x])
next
  assume k: "GROQ_API_KEY e \<noteq> []"
    and r: "post e (generation_request (GROQ_API_KEY e) p sp t) = Inr r" "status_code r \<noteq> 200"
  show "fst (generate_with_groq e p sp t w) = None"
    by (rule generate_with_groq_status(1) [OF k r])
  show "st_error (snd (generate_with_groq e p sp t w)) = st_error w @
        [''Groq API returned status code: '' @ str_int (status_code r),
         ''Response: '' @ response_text r]"
    by (rule generate_with_groq_status(2) [OF k r])
next
  assume "GROQ_API_KEY e \<noteq> []" "fst (generate_with_groq e p sp t w) = None"
  then show "(\<exists>y. post e (generation_request (GROQ_API_KEY e) p sp t) = Inl y) \<or>
      (\<exists>r'. post e (generation_request (GROQ_API_KEY e) p sp t) = Inr r' \<and>
            (status_code r' \<noteq> 200 \<or> (\<exists>y. response_json r' = Inl y) \<or>
             (\<exists>result y. response_json r' = Inr result \<and> extract_content result = Inl y)))"
    using generate_with_groq_None by blast
next
  show "exception_message x =
     (if is_Timeout x then stopwatch @ '' Generation timed out''
      else if is_ConnectionError x then electric_plug @ '' Cannot connect to Groq API''
      else cross_mark @ '' Error generating content: '' @ exn_str x)"
    by (simp add: exception_message_def)
  show "distinct [cross_mark @ '' GROQ_API_KEY not configured'',
             stopwatch @ '' Generation timed out'',
             electric_plug @ '' Cannot connect to Groq API'',
             cross_mark @ '' Error generating content: '' @ exn_str x,
             ''Groq API returned status code: '' @ str_int (status_code r),
             ''Response: '' @ response_text r]"
    by (rule messages_differ)
qed

text \<open>
  The theorem of C5 without a key, on a connect timeout (which is a timeout and a connection
  error at once, and is reported as a timeout) and on a status 500.
\<close>

theorem completion_client_failures_witness:
  "(GROQ_API_KEY no_key_env = [] \<and>
    fst (generate_with_groq no_key_env ''user prompt'' ''system prompt'' 1 empty_world) = None \<and>
    sent (snd (generate_with_groq no_key_env ''user prompt'' ''system prompt'' 1 empty_world)) = []) \<and>
   (GROQ_API_KEY (raising_env ConnectTimeout) \<noteq> [] \<and>
    is_Timeout (Exn ConnectTimeout ''HTTPSConnectionPool: failed'') \<and>
    is_ConnectionError (Exn ConnectTimeout ''HTTPSConnectionPool: failed'') \<and>
    fst (generate_with_groq (raising_env ConnectTimeout) ''user prompt'' ''system prompt'' 1
           empty_world) = None \<and>
    st_error (snd (generate_with_groq (raising_env ConnectTimeout) ''user prompt''
                     ''system prompt'' 1 empty_world)) = [stopwatch @ '' Generation timed out''] \<and>
    length (sent (snd (generate_with_groq (raising_env ConnectTimeout) ''user prompt''
                         ''system prompt'' 1 empty_world))) = 1) \<and>
   (GROQ_API_KEY server_error_env \<noteq> [] \<and>
    fst (generate_with_groq server_error_env ''user prompt'' ''system prompt'' 1 empty_world) =
      None \<and>
    hd (st_error (snd (generate_with_groq server_error_env ''user prompt'' ''system prompt'' 1
                         empty_world))) = ''Groq API returned status code: 500'')"
proof -
  have a: "GROQ_API_KEY no_key_env = []"
    by (simp add: no_key_env_def env_with_sel)
  have 1: "fst (generate_with_groq no_key_env ''user prompt'' ''system prompt'' 1 empty_world) = None \<and>
    sent (snd (generate_with_groq no_key_env ''user prompt'' ''system prompt'' 1 empty_world)) = []"
    using completion_client_failures [where e = no_key_env and p = "''user prompt''"
        and sp = "''system prompt''" and t = 1 and w = empty_world] a
    by (simp add: empty_world_def)
  have b: "GROQ_API_KEY (raising_env ConnectTimeout) \<noteq> []"
    "post (raising_env ConnectTimeout)
       (generation_request (GROQ_API_KEY (raising_env ConnectTimeout)) ''user prompt''
          ''system prompt'' 1) = Inl (Exn ConnectTimeout ''HTTPSConnectionPool: failed'')"
    by (simp_all add: raising_env_def env_with_sel)
  have 2: "fst (generate_with_groq (raising_env ConnectTimeout) ''user prompt'' ''system prompt'' 1
           empty_world) = None \<and>
    st_error (snd (generate_with_groq (raising_env ConnectTimeout) ''user prompt''
                     ''system prompt'' 1 empty_world)) = [stopwatch @ '' Generation timed out''] \<and>
    length (sent (snd (generate_with_groq (raising_env ConnectTimeout) ''user prompt''
                         ''system prompt'' 1 empty_world))) = 1"
    using completion_client_failures [where e = "raising_env ConnectTimeout"
        and p = "''user prompt''" and sp = "''system prompt''" and t = 1 and w = empty_world
        and x = "Exn ConnectTimeout ''HTTPSConnectionPool: failed''"] b
    by (simp add: empty_world_def)
  have c: "GROQ_API_KEY server_error_env \<noteq> []"
    "post server_error_env
       (generation_request (GROQ_API_KEY server_error_env) ''user prompt'' ''system prompt'' 1) =
     Inr \<lparr>status_code = 500, response_text = replicate 101 (CHR ''x''),
          response_json = not_json\<rparr>"
    by (simp_all add: server_error_env_def env_with_sel reply_def)
  have 3: "fst (generate_with_groq server_error_env ''user prompt'' ''system prompt'' 1 empty_world) =
      None \<and>
    hd (st_error (snd (generate_with_groq server_error_env ''user prompt'' ''system prompt'' 1
                         empty_world))) = ''Groq API returned status code: 500''"
    using completion_client_failures [where e = server_error_env
        and p = "''user prompt''" and sp = "''system prompt''" and t = 1 and w = empty_world
        and r = "\<lparr>status_code = 500, response_text = replicate 101 (CHR ''x''),
          response_json = not_json\<rparr>"] c
    by (simp add: empty_world_def str_int_def str_nat.simps)
  from a b(1) c(1) 1 2 3 show ?thesis by simp
qed

text \<open>
  Claim C6 on a status 500 with a body of 101 characters: \<open>generate_with_groq\<close> returns
  \<open>None\<close> and shows the status code, but it shows the whole body, where
  \<open>check_groq_connection\<close> on the same response keeps the first 100 characters.
\<close>

theorem generation_error_shows_whole_body:
  "fst (generate_with_groq server_error_env ''user prompt'' ''system prompt'' 1 empty_world) =
     None \<and>
   st_error (snd (generate_with_groq server_error_env ''user prompt'' ''system prompt'' 1
                    empty_world)) =
     [''Groq API returned status code: 500'', ''Response: '' @ replicate 101 (CHR ''x'')] \<and>
   length (replicate 101 (CHR ''x'')) = 101 \<and>
   fst (check_groq_connection server_error_env empty_world) =
     (False, ''Status: 500 - '' @ replicate 100 (CHR ''x''))"
  by (simp add: generate_with_groq_def check_groq_connection_def server_error_env_def env_with_sel
        reply_def empty_world_def show_error_def Let_def str_int_def str_nat.simps
        take_chars_ascii continuation_def)

text \<open>
  Claim C7. A submitted form whose achievements are empty leaves the session as it was and
  sends no request: the only effect is the validation message on the page. No call of the
  completion client shows that message, whatever its outcome.
\<close>

theorem empty_achievements_blocked:
  "(achievements f = [] \<longrightarrow>
      fst (submit_form e f s w) = s \<and>
      sent (snd (submit_form e f s w)) = sent w \<and>
      st_error (snd (submit_form e f s w)) = st_error w @ [validation_message]) \<and>
   (st_error (snd (generate_with_groq e' p sp t w')) = st_error w' @ ms \<longrightarrow>
      validation_message \<notin> set ms)"
proof (intro conjI impI)
  assume "achievements f = []"
  then show "fst (submit_form e f s w) = s"
    and "sent (snd (submit_form e f s w)) = sent w"
    and "st_error (snd (submit_form e f s w)) = st_error w @ [validation_message]"
    by (simp_all add: submit_form_blocked show_error_def)
next
  assume "st_error (snd (generate_with_groq e' p sp t w')) = st_error w' @ ms"
  with client_messages [of e' p sp t w'] show "validation_message \<notin> set ms" by auto
qed

text \<open>
  The theorem of C7 on the start-up form with its achievements cleared, and on the messages
  of a call that meets a status 500.
\<close>

theorem empty_achievements_blocked_witness:
  "achievements blank_form = [] \<and>
   fst (submit_form entrepreneur_env blank_form initial_session empty_world) = initial_session \<and>
   sent (snd (submit_form entrepreneur_env blank_form initial_session empty_world)) = [] \<and>
   st_error (snd (submit_form entrepreneur_env blank_form initial_session empty_world)) =
     [validation_message] \<and>
   validation_message \<notin>
     set (st_error (snd (generate_with_groq server_error_env ''user prompt'' ''system prompt'' 1
                           empty_world)))"
proof -
  have a: "achievements blank_form = []" by (simp add: blank_form_def)
  have b: "st_error (snd (generate_with_groq server_error_env ''user prompt'' ''system prompt'' 1
                           empty_world)) =
        st_error empty_world @
        st_error (snd (generate_with_groq server_error_env ''user prompt'' ''system prompt'' 1
                           empty_world))"
    by (simp add: empty_world_def)
  note inst = empty_achievements_blocked [where f = blank_form and e = entrepreneur_env
      and s = initial_session and w = empty_world and e' = server_error_env
      and p = "''user prompt''" and sp = "''system prompt''" and t = 1 and w' = empty_world
      and ms = "st_error (snd (generate_with_groq server_error_env ''user prompt''
                  ''system prompt'' 1 empty_world))"]
  from inst a b show ?thesis by (simp add: empty_world_def)
qed

text \<open>
  Claim C8 on a status 200 whose document has an empty \<open>choices\<close> array: the default of
  \<open>get\<close> is not used since the key is present, the index 0 raises \<open>IndexError\<close>, the
  last \<open>except\<close> clause catches it, and the client returns \<open>None\<close> and not the empty
  string. A document without the key \<open>choices\<close> does give the empty string.
\<close>

theorem empty_choices_gives_none:
  "response_json \<lparr>status_code = 200, response_text = ''{'' @ DQ @ ''choices'' @ DQ @ '': []}'',
                  response_json = Inr (JObj [(''choices'', JArr [])])\<rparr> =
     Inr (JObj [(''choices'', JArr [])]) \<and>
   extract_content (JObj [(''choices'', JArr [])]) =
     Inl (Exn IndexError ''list index out of range'') \<and>
   generate_with_groq empty_choices_env ''user prompt'' ''system prompt'' 1 empty_world =
     (None, \<lparr>sent = [generation_request ''gsk'' ''user prompt'' ''system prompt'' 1],
             st_error = [cross_mark @ '' Error generating content: list index out of range''],
             st_warning = []\<rparr>) \<and>
   extract_content (JObj []) = Inr []"
  by (simp add: generate_with_groq_def empty_choices_env_def env_with_sel reply_def
        empty_world_def show_error_def Let_def extract_content_def handle_exception_def strip_def)

text \<open>
  Claim C9, as stated, fails: a submitted form whose achievements are empty stops at the
  validation of line 373, before the comparison with the stored form. Although it differs
  from the stored form, the counter is not reset: it stays at 4, and nothing is sent.
\<close>

theorem blocked_submission_keeps_count:
  "form_data submitted_session \<noteq> form_data_of blank_form \<and>
   variation_count submitted_session = 4 \<and>
   variation_count (fst (submit_form entrepreneur_env blank_form submitted_session empty_world))
     = 4 \<and>
   sent (snd (submit_form entrepreneur_env blank_form submitted_session empty_world)) = []"
proof -
  have a: "achievements blank_form = []" by (simp add: blank_form_def)
  have s: "variation_count submitted_session = 4"
    "form_data submitted_session = form_data_of startup_form"
    by (simp_all add: submitted_session_def)
  show ?thesis
    using blank_form_differs
    by (simp add: submit_form_blocked [OF a] s show_error_def empty_world_def)
qed

text \<open>
  Claim C9, amended. A submitted form whose achievements are empty leaves the session, and
  so the counter, as it was, and sends nothing. For a submitted form that passes the
  validation: when the dictionary of the form differs from the stored one, by its contents,
  the generation runs with variation number 0 and the counter ends at 1 after a success and
  at 0 after a failure; when it is equal, the counter grows by one after a success and is
  unchanged after a failure. Exactly one generation runs. The Regenerate button updates the
  counter in the same way, without a reset. The dictionary holds the entire form: two forms
  have the same dictionary only when they agree on every one of the 22 fields, so a change
  of any single field is a difference.
\<close>

theorem variation_count_update:
  "(achievements f = [] \<longrightarrow>
      fst (submit_form e f s w) = s \<and> sent (snd (submit_form e f s w)) = sent w) \<and>
   (achievements f \<noteq> [] \<longrightarrow> form_data s \<noteq> form_data_of f \<longrightarrow>
      form_data (fst (submit_form e f s w)) = form_data_of f \<and>
      variation_count (fst (submit_form e f s w)) =
        (if fst (generate_cv_sections e (form_data_of f) 0 w) \<noteq> None then 1 else 0)) \<and>
   (achievements f \<noteq> [] \<longrightarrow> form_data s = form_data_of f \<longrightarrow>
      variation_count (fst (submit_form e f s w)) =
        (if fst (generate_cv_sections e (form_data_of f) (variation_count s) w) \<noteq> None
         then variation_count s + 1 else variation_count s)) \<and>
   (achievements f \<noteq> [] \<longrightarrow>
      snd (submit_form e f s w) =
        snd (generate_cv_sections e (form_data_of f)
               (if form_data s \<noteq> form_data_of f then 0 else variation_count s) w)) \<and>
   (form_data s \<noteq> Map.empty \<longrightarrow>
      variation_count (fst (regenerate e s w)) =
        (if fst (generate_cv_sections e (form_data s) (variation_count s) w) \<noteq> None
         then variation_count s + 1 else variation_count s)) \<and>
   ((form_data_of f = form_data_of f') = (f = f'))"
proof (intro conjI impI)
  assume "achievements f = []"
  then show "fst (submit_form e f s w) = s"
    and "sent (snd (submit_form e f s w)) = sent w"
    by (simp_all add: submit_form_blocked show_error_def)
next
  assume a: "achievements f \<noteq> []" and d: "form_data s \<noteq> form_data_of f"
  from d show "variation_count (fst (submit_form e f s w)) =
        (if fst (generate_cv_sections e (form_data_of f) 0 w) \<noteq> None then 1 else 0)"
    using submit_form_count(1) [OF a, of e s w] by (simp add: Let_def)
  show "form_data (fst (submit_form e f s w)) = form_data_of f"
    by (rule submit_form_count(2) [OF a])
next
  assume a: "achievements f \<noteq> []" and "form_data s = form_data_of f"
  then show "variation_count (fst (submit_form e f s w)) =
        (if fst (generate_cv_sections e (form_data_of f) (variation_count s) w) \<noteq> None
         then variation_count s + 1 else variation_count s)"
    using submit_form_count(1) [OF a, of e s w] by (simp add: Let_def)
next
  assume a: "achievements f \<noteq> []"
  show "snd (submit_form e f s w) =
        snd (generate_cv_sections e (form_data_of f)
               (if form_data s \<noteq> form_data_of f then 0 else variation_count s) w)"
    by (rule submit_form_count(3) [OF a])
next
  assume "form_data s \<noteq> Map.empty"
  then show "variation_count (fst (regenerate e s w)) =
        (if fst (generate_cv_sections e (form_data s) (variation_count s) w) \<noteq> None
         then variation_count s + 1 else variation_count s)"
    by (rule regenerate_count)
next
  show "(form_data_of f = form_data_of f') = (f = f')"
    by (rule form_data_of_inject)
qed

text \<open>
  The theorem of C9 on a session that holds the start-up form with the counter at 4: the
  form with its achievements cleared, the same form, the form with another university and
  the form with other achievements, with a service that answers and one that fails, and the
  Regenerate button.
\<close>

theorem variation_count_update_witness:
  "achievements blank_form = [] \<and> achievements startup_form \<noteq> [] \<and>
   achievements lums_form \<noteq> [] \<and> achievements award_form \<noteq> [] \<and>
   variation_count submitted_session = 4 \<and>
   form_data submitted_session = form_data_of startup_form \<and>
   form_data submitted_session \<noteq> form_data_of lums_form \<and>
   form_data submitted_session \<noteq> form_data_of award_form \<and>
   form_data submitted_session \<noteq> Map.empty \<and>
   fst (submit_form entrepreneur_env blank_form submitted_session empty_world) =
     submitted_session \<and>
   variation_count (fst (submit_form entrepreneur_env startup_form submitted_session empty_world))
     = 5 \<and>
   variation_count (fst (submit_form server_error_env startup_form submitted_session empty_world))
     = 4 \<and>
   variation_count (fst (submit_form entrepreneur_env lums_form submitted_session empty_world))
     = 1 \<and>
   variation_count (fst (submit_form server_error_env lums_form submitted_session empty_world))
     = 0 \<and>
   variation_count (fst (submit_form entrepreneur_env award_form submitted_session empty_world))
     = 1 \<and>
   variation_count (fst (submit_form server_error_env award_form submitted_session empty_world))
     = 0 \<and>
   variation_count (fst (regenerate entrepreneur_env submitted_session empty_world)) = 5 \<and>
   variation_count (fst (regenerate server_error_env submitted_session empty_world)) = 4"
proof -
  have b: "achievements blank_form = []" by (simp add: blank_form_def)
  have a: "achievements startup_form \<noteq> []" "achievements lums_form \<noteq> []"
    "achievements award_form \<noteq> []"
    by (simp_all add: startup_form_def lums_form_def award_form_def)
  have s: "variation_count submitted_session = 4"
    "form_data submitted_session = form_data_of startup_form"
    by (simp_all add: submitted_session_def)
  note T = variation_count_update [where s = submitted_session and w = empty_world
      and f' = startup_form]
  have "award_form \<noteq> startup_form" "lums_form \<noteq> startup_form"
    by (simp_all add: startup_form_def award_form_def lums_form_def)
  then have "form_data_of award_form \<noteq> form_data_of startup_form"
    "form_data_of lums_form \<noteq> form_data_of startup_form"
    using T [where e = entrepreneur_env and f = award_form, THEN conjunct2, THEN conjunct2,
        THEN conjunct2, THEN conjunct2, THEN conjunct2]
      T [where e = entrepreneur_env and f = lums_form, THEN conjunct2, THEN conjunct2,
        THEN conjunct2, THEN conjunct2, THEN conjunct2]
    by blast+
  then have d: "form_data submitted_session \<noteq> form_data_of lums_form"
    "form_data submitted_session \<noteq> form_data_of award_form"
    by (simp_all only: s) (rule not_sym, assumption)+
  have n: "form_data submitted_session \<noteq> Map.empty"
    by (simp add: s form_data_of_nonempty)
  have 0: "fst (submit_form entrepreneur_env blank_form submitted_session empty_world) =
     submitted_session"
    by (rule T [where e = entrepreneur_env and f = blank_form, THEN conjunct1, THEN mp, OF b,
          THEN conjunct1])
  have 1: "variation_count (fst (submit_form entrepreneur_env startup_form submitted_session
             empty_world)) = 5"
    using T [where e = entrepreneur_env and f = startup_form, THEN conjunct2, THEN conjunct2, THEN conjunct1,
        THEN mp, OF a(1), THEN mp, OF s(2)]
    by (simp add: entrepreneur_section s(1))
  have 2: "variation_count (fst (submit_form server_error_env startup_form submitted_session
             empty_world)) = 4"
    using T [where e = server_error_env and f = startup_form, THEN conjunct2, THEN conjunct2, THEN conjunct1,
        THEN mp, OF a(1), THEN mp, OF s(2)]
    by (simp add: server_error_section s(1))
  have 3: "variation_count (fst (submit_form entrepreneur_env lums_form submitted_session
             empty_world)) = 1"
    using T [where e = entrepreneur_env and f = lums_form, THEN conjunct2, THEN conjunct1,
        THEN mp, OF a(2), THEN mp, OF d(1), THEN conjunct2]
    by (simp add: entrepreneur_section)
  have 4: "variation_count (fst (submit_form server_error_env lums_form submitted_session
             empty_world)) = 0"
    using T [where e = server_error_env and f = lums_form, THEN conjunct2, THEN conjunct1,
        THEN mp, OF a(2), THEN mp, OF d(1), THEN conjunct2]
    by (simp add: server_error_section)
  have 5: "variation_count (fst (submit_form entrepreneur_env award_form submitted_session
             empty_world)) = 1"
    using T [where e = entrepreneur_env and f = award_form, THEN conjunct2, THEN conjunct1,
        THEN mp, OF a(3), THEN mp, OF d(2), THEN conjunct2]
    by (simp add: entrepreneur_section)
  have 6: "variation_count (fst (submit_form server_error_env award_form submitted_session
             empty_world)) = 0"
    using T [where e = server_error_env and f = award_form, THEN conjunct2, THEN conjunct1,
        THEN mp, OF a(3), THEN mp, OF d(2), THEN conjunct2]
    by (simp add: server_error_section)
  have 7: "variation_count (fst (regenerate entrepreneur_env submitted_session empty_world)) = 5"
    using T [where e = entrepreneur_env and f = startup_form, THEN conjunct2, THEN conjunct2, THEN conjunct2, THEN conjunct2, THEN conjunct1,
        THEN mp, OF n]
    by (simp add: entrepreneur_section s)
  have 8: "variation_count (fst (regenerate server_error_env submitted_session empty_world)) = 4"
    using T [where e = server_error_env and f = startup_form, THEN conjunct2, THEN conjunct2, THEN conjunct2, THEN conjunct2, THEN conjunct1,
        THEN mp, OF n]
    by (simp add: server_error_section s)
  show ?thesis
    by (intro conjI b a s d n 0 1 2 3 4 5 6 7 8)
qed

text \<open>
  Claim C10. \<open>generate_cv_sections\<close> returns \<open>None\<close> when the completion client returns
  \<open>None\<close>, and when it returns a text whose characters are all whitespace, which is then
  the empty text since the client strips it. Every record returned has a text that is not
  empty, the one the client returned, with no whitespace character at either end.
\<close>

theorem section_text_nonempty:
  "(fst (generate_with_groq e (prompt data n) (system_prompt data n)
           (sample_temperature (random_k e)) w) = None \<longrightarrow>
      fst (generate_cv_sections e data n w) = None) \<and>
   (fst (generate_with_groq e (prompt data n) (system_prompt data n)
           (sample_temperature (random_k e)) w) = Some t \<longrightarrow>
      (\<forall>c\<in>set (chars t). isspace c) \<longrightarrow>
      t = [] \<and> fst (generate_cv_sections e data n w) = None) \<and>
   (fst (generate_cv_sections e data n w) = Some g \<longrightarrow>
      (\<exists>t'. g ''text'' = Some (PyStr t') \<and> t' \<noteq> [] \<and>
            \<not> isspace (hd (chars t')) \<and> \<not> isspace (last (chars t')) \<and>
            fst (generate_with_groq e (prompt data n) (system_prompt data n)
                   (sample_temperature (random_k e)) w) = Some t'))"
proof (intro conjI impI)
  assume "fst (generate_with_groq e (prompt data n) (system_prompt data n)
           (sample_temperature (random_k e)) w) = None"
  then show "fst (generate_cv_sections e data n w) = None"
    by (simp add: generate_cv_sections_unfold Let_def)
next
  assume r: "fst (generate_with_groq e (prompt data n) (system_prompt data n)
           (sample_temperature (random_k e)) w) = Some t"
    and sp: "\<forall>c\<in>set (chars t). isspace c"
  from generate_with_groq_stripped [OF r] obtain s where s: "t = strip s" ..
  show e: "t = []"
  proof (rule ccontr)
    assume ne: "t \<noteq> []"
    then have "\<not> isspace (hd (chars t))" using strip_not_space(1) [of s] s by simp
    moreover from ne have "hd (chars t) \<in> set (chars t)" by (simp add: chars_eq_Nil)
    ultimately show False using sp by blast
  qed
  show "fst (generate_cv_sections e data n w) = None"
    using r e by (simp add: generate_cv_sections_unfold Let_def)
next
  assume g: "fst (generate_cv_sections e data n w) = Some g"
  then obtain t' where r: "fst (generate_with_groq e (prompt data n) (system_prompt data n)
           (sample_temperature (random_k e)) w) = Some t'" and ne: "t' \<noteq> []"
    and tx: "g ''text'' = Some (PyStr t')"
    by (auto simp: generate_cv_sections_unfold Let_def split: option.splits if_splits)
  from generate_with_groq_stripped [OF r] obtain s where s: "t' = strip s" ..
  have "\<not> isspace (hd (chars t'))" "\<not> isspace (last (chars t'))"
    using strip_not_space [of s] ne s by simp_all
  with r ne tx show "\<exists>t'. g ''text'' = Some (PyStr t') \<and> t' \<noteq> [] \<and>
            \<not> isspace (hd (chars t')) \<and> \<not> isspace (last (chars t')) \<and>
            fst (generate_with_groq e (prompt data n) (system_prompt data n)
                   (sample_temperature (random_k e)) w) = Some t'"
    by blast
qed

text \<open>
  The theorem of C10 with a service that fails, one whose completion is a space, a line
  feed, U+2003, U+00A0 and U+3000, one that returns a sentence, and one whose completion
  is the word \<open>Deja\<close> with its two accents (U+00E9 and U+00E0) between U+00A0 and U+2003: the last byte of its last character is
  \<open>0xA0\<close>, and it stays.
\<close>

theorem section_text_nonempty_witness:
  "(fst (generate_with_groq server_error_env (prompt (form_data_of startup_form) 3)
           (system_prompt (form_data_of startup_form) 3)
           (sample_temperature (random_k server_error_env)) empty_world) = None \<and>
    fst (generate_cv_sections server_error_env (form_data_of startup_form) 3 empty_world) =
      None) \<and>
   (fst (generate_with_groq whitespace_env (prompt (form_data_of startup_form) 3)
           (system_prompt (form_data_of startup_form) 3)
           (sample_temperature (random_k whitespace_env)) empty_world) = Some [] \<and>
    fst (generate_cv_sections whitespace_env (form_data_of startup_form) 3 empty_world) =
      None) \<and>
   (\<exists>g t'. fst (generate_cv_sections entrepreneur_env (form_data_of startup_form) 3
                  empty_world) = Some g \<and>
           g ''text'' = Some (PyStr t') \<and> t' \<noteq> []) \<and>
   (\<exists>g. fst (generate_cv_sections accent_env (form_data_of startup_form) 3 empty_world) =
           Some g \<and>
        g ''text'' = Some (PyStr (''D'' @ [CHR 0xC3, CHR 0xA9] @ ''j'' @ [CHR 0xC3, CHR 0xA0])))"
proof -
  note T = section_text_nonempty [where data = "form_data_of startup_form" and n = 3
      and w = empty_world]
  have r1: "fst (generate_with_groq server_error_env (prompt (form_data_of startup_form) 3)
           (system_prompt (form_data_of startup_form) 3)
           (sample_temperature (random_k server_error_env)) empty_world) = None"
    by (rule server_error_reply)
  have 1: "fst (generate_cv_sections server_error_env (form_data_of startup_form) 3 empty_world) =
      None"
    by (rule T [where e = server_error_env, THEN conjunct1, THEN mp, OF r1])
  have r2: "fst (generate_with_groq whitespace_env (prompt (form_data_of startup_form) 3)
           (system_prompt (form_data_of startup_form) 3)
           (sample_temperature (random_k whitespace_env)) empty_world) = Some []"
    by (rule whitespace_reply)
  have v: "\<forall>c\<in>set (chars []). isspace c" by simp
  have 2: "fst (generate_cv_sections whitespace_env (form_data_of startup_form) 3 empty_world) =
      None"
    by (rule T [where e = whitespace_env and t = "[]", THEN conjunct2, THEN conjunct1, THEN mp,
          OF r2, THEN mp, OF v, THEN conjunct2])
  obtain g where g: "fst (generate_cv_sections entrepreneur_env (form_data_of startup_form) 3
                  empty_world) = Some g"
    using entrepreneur_section [of "form_data_of startup_form" 3 empty_world]
    by (cases "fst (generate_cv_sections entrepreneur_env (form_data_of startup_form) 3
                  empty_world)") simp_all
  note c3 = T [where e = entrepreneur_env and g = g, THEN conjunct2, THEN conjunct2, THEN mp,
      OF g]
  then obtain t' where tx: "g ''text'' = Some (PyStr t')" and ne: "t' \<noteq> []"
    by (elim exE conjE)
  have 3: "\<exists>g t'. fst (generate_cv_sections entrepreneur_env (form_data_of startup_form) 3
                  empty_world) = Some g \<and>
           g ''text'' = Some (PyStr t') \<and> t' \<noteq> []"
    using g tx ne by (intro exI [of _ g] exI [of _ t'] conjI)
  obtain h where h: "fst (generate_cv_sections accent_env (form_data_of startup_form) 3
                  empty_world) = Some h"
    using accent_section [of "form_data_of startup_form" 3 empty_world]
    by (cases "fst (generate_cv_sections accent_env (form_data_of startup_form) 3
                  empty_world)") simp_all
  note c4 = T [where e = accent_env and g = h, THEN conjunct2, THEN conjunct2, THEN mp, OF h]
  then obtain u where ux: "h ''text'' = Some (PyStr u)"
    and ur: "fst (generate_with_groq accent_env (prompt (form_data_of startup_form) 3)
           (system_prompt (form_data_of startup_form) 3)
           (sample_temperature (random_k accent_env)) empty_world) = Some u"
    by (elim exE conjE)
  from ur have "u = ''D'' @ [CHR 0xC3, CHR 0xA9] @ ''j'' @ [CHR 0xC3, CHR 0xA0]"
    by (simp only: accent_reply option.inject)
  with ux have "h ''text'' = Some (PyStr (''D'' @ [CHR 0xC3, CHR 0xA9] @ ''j'' @ [CHR 0xC3, CHR 0xA0]))"
    by (simp only:)
  with h have 4: "\<exists>g. fst (generate_cv_sections accent_env (form_data_of startup_form) 3
           empty_world) = Some g \<and>
        g ''text'' = Some (PyStr (''D'' @ [CHR 0xC3, CHR 0xA9] @ ''j'' @ [CHR 0xC3, CHR 0xA0]))"
    by (intro exI [of _ h] conjI)
  show ?thesis
    by (intro conjI r1 1 r2 2 3 4)
qed

end
